theory Spec2Isabelle
  imports Complex_Main "HOL-Library.Char_ord" "HOL-Library.List_Lexorder" "HOL-Library.Word"
begin

section \<open>Python values the scene readers work on\<close>

text \<open>
  The readers of \<^verbatim>\<open>gs3dgs/scene/dataset_readers.py\<close> and the camera helpers of
  \<^verbatim>\<open>gs2dgs/utils/camera_utils.py\<close> are embedded as HOL functions. numpy arrays
  are lists of rows over the reals (the rounding of binary floating point is not
  modelled), Python exceptions are the left summand of a sum type, and the file
  system and the module-level flag are explicit state.
\<close>

datatype exn =
    AssertionError
  | FileNotFoundError string
  | KeyError
  | IndexError
  | ValueError
  | TypeError
  | LinAlgError
  | ZeroDivisionError
  | ReaderError
  | UnidentifiedImageError

type_synonym vec = "real list"
type_synonym ndarray = "real list list"

subsection \<open>String and path helpers\<close>

text \<open>\<^verbatim>\<open>s.split(c)\<close>: the pieces between the occurrences of \<open>c\<close>; never empty.\<close>

fun py_split :: "char \<Rightarrow> string \<Rightarrow> string list" where
  "py_split c [] = [[]]"
| "py_split c (x # xs) =
     (if x = c then [] # py_split c xs
      else (case py_split c xs of
              [] \<Rightarrow> [[x]]
            | w # ws \<Rightarrow> (x # w) # ws))"

text \<open>\<^verbatim>\<open>s.rsplit(c, 1)\<close>: one piece when \<open>c\<close> does not occur, else the text before
  the last \<open>c\<close> and the text after it.\<close>

definition py_rsplit1 :: "char \<Rightarrow> string \<Rightarrow> string list" where
  "py_rsplit1 c s =
     (let r = rev s;
          after = rev (takeWhile (\<lambda>x. x \<noteq> c) r);
          rest = dropWhile (\<lambda>x. x \<noteq> c) r
      in (case rest of
            [] \<Rightarrow> [s]
          | _ # before \<Rightarrow> [rev before, after]))"

text \<open>Python indexing of a list with a non-negative literal index.\<close>

definition py_index :: "'a list \<Rightarrow> nat \<Rightarrow> exn + 'a" where
  "py_index xs i = (if i < length xs then Inr (xs ! i) else Inl IndexError)"

text \<open>\<^verbatim>\<open>os.path.basename\<close> (POSIX): what follows the last slash.\<close>

definition basename :: "string \<Rightarrow> string" where
  "basename p = rev (takeWhile (\<lambda>x. x \<noteq> CHR ''/'') (rev p))"

text \<open>\<^verbatim>\<open>os.path.join\<close> of two components (POSIX): an absolute second component
  replaces the first; a slash is inserted unless the first is empty or ends in one.\<close>

definition path_join :: "string \<Rightarrow> string \<Rightarrow> string" where
  "path_join a b =
     (if b \<noteq> [] \<and> hd b = CHR ''/'' then b
      else if a = [] \<or> last a = CHR ''/'' then a @ b
      else a @ ''/'' @ b)"

text \<open>\<^verbatim>\<open>Path(p).stem\<close>: the last component without its last suffix; a name whose
  only dot is its first or its last character has no suffix.\<close>

definition path_stem :: "string \<Rightarrow> string" where
  "path_stem p =
     (let name = basename p;
          after = rev (takeWhile (\<lambda>x. x \<noteq> CHR ''.'') (rev name));
          rest = dropWhile (\<lambda>x. x \<noteq> CHR ''.'') (rev name)
      in (case rest of
            [] \<Rightarrow> name
          | _ # before \<Rightarrow> (if before = [] \<or> after = [] then name else rev before)))"

subsection \<open>numpy on lists of rows\<close>

definition shape_ok :: "nat \<Rightarrow> nat \<Rightarrow> ndarray \<Rightarrow> bool" where
  "shape_ok m n A = (length A = m \<and> list_all (\<lambda>row. length row = n) A)"

definition zeros :: "nat \<Rightarrow> nat \<Rightarrow> ndarray" where
  "zeros m n = replicate m (replicate n 0)"

definition dot :: "vec \<Rightarrow> vec \<Rightarrow> real" where
  "dot u v = sum_list (map2 (*) u v)"

definition matvec :: "ndarray \<Rightarrow> vec \<Rightarrow> vec" where
  "matvec A v = map (\<lambda>row. dot row v) A"

definition matmul :: "ndarray \<Rightarrow> ndarray \<Rightarrow> ndarray" where
  "matmul A B = map (\<lambda>row. map (\<lambda>col. dot row col) (transpose B)) A"

definition eye :: "nat \<Rightarrow> ndarray" where
  "eye n = map (\<lambda>i. map (\<lambda>j. if i = j then 1 else 0) [0..<n]) [0..<n]"

text \<open>\<^verbatim>\<open>A[:3, :3]\<close>, \<^verbatim>\<open>A[:3, 3]\<close> and \<^verbatim>\<open>A[:3, 3:4]\<close>. A slice is cut short
  silently where the array is smaller; the integer index 3 is not.\<close>

definition block33 :: "ndarray \<Rightarrow> ndarray" where
  "block33 A = map (take 3) (take 3 A)"

definition col3 :: "ndarray \<Rightarrow> exn + vec" where
  "col3 A =
     (if list_all (\<lambda>row. 3 < length row) A then Inr (map (\<lambda>row. row ! 3) (take 3 A))
      else Inl IndexError)"

definition col3_keep :: "ndarray \<Rightarrow> ndarray" where
  "col3_keep A = map (\<lambda>row. take 1 (drop 3 row)) (take 3 A)"

text \<open>\<^verbatim>\<open>Rt[:3, :3] = A\<close>, \<^verbatim>\<open>Rt[:3, 3] = t\<close> and \<^verbatim>\<open>Rt[3, 3] = 1.0\<close> on a 4 by 4
  array. A right-hand side of another shape than 3 by 3 (length 3) is reported as
  \<open>ValueError\<close>; numpy would also broadcast the shapes (1,3), (3,1) and (1,1), which
  no reader produces.\<close>

definition set_block33 :: "ndarray \<Rightarrow> ndarray \<Rightarrow> exn + ndarray" where
  "set_block33 Rt A =
     (if shape_ok 3 3 A
      then Inr (map2 (\<lambda>row arow. arow @ drop 3 row) (take 3 Rt) A @ drop 3 Rt)
      else Inl ValueError)"

definition set_col3 :: "ndarray \<Rightarrow> vec \<Rightarrow> exn + ndarray" where
  "set_col3 Rt t =
     (if length t = 3
      then Inr (map2 (\<lambda>row x. take 3 row @ [x] @ drop 4 row) (take 3 Rt) t @ drop 3 Rt)
      else Inl ValueError)"

definition set_33 :: "ndarray \<Rightarrow> real \<Rightarrow> ndarray" where
  "set_33 Rt x = Rt[3 := (Rt ! 3)[3 := x]]"

text \<open>The determinant by expansion along the first row, and
  \<^verbatim>\<open>np.linalg.inv\<close> as the adjugate over the determinant: \<open>LinAlgError\<close> for an
  array that is not square or is singular. Over the reals this is the inverse that
  numpy approximates.\<close>

definition del_at :: "nat \<Rightarrow> 'a list \<Rightarrow> 'a list" where
  "del_at j xs = take j xs @ drop (Suc j) xs"

function det :: "ndarray \<Rightarrow> real" where
  "det [] = 1"
| "det (r # M) = (\<Sum>j\<leftarrow>[0..<length r]. (- 1) ^ j * (r ! j) * det (map (del_at j) M))"
  by pat_completeness auto
termination
  by (relation "measure length") auto

definition cofactor :: "ndarray \<Rightarrow> nat \<Rightarrow> nat \<Rightarrow> real" where
  "cofactor M i j = (- 1) ^ (i + j) * det (map (del_at j) (del_at i M))"

definition linalg_inv :: "ndarray \<Rightarrow> exn + ndarray" where
  "linalg_inv M =
     (let n = length M in
      if n = 0 \<or> \<not> shape_ok n n M then Inl LinAlgError
      else if det M = 0 then Inl LinAlgError
      else Inr (map (\<lambda>i. map (\<lambda>j. cofactor M j i / det M) [0..<n]) [0..<n]))"

subsection \<open>Camera records\<close>

record CameraInfo =
  uid :: int
  R :: ndarray
  T :: vec
  FovY :: real
  FovX :: real
  depth_cam_path :: "string option"
  depth_est_path :: "string option"
  image_path :: string
  image_name :: string
  width :: nat
  height :: nat

section \<open>\<^verbatim>\<open>camera_utils.camera_to_JSON\<close>\<close>

text \<open>Lines 70 to 73: the 4 by 4 array \<open>Rt\<close> assembled from a record's \<open>R\<close> and
  \<open>T\<close>.\<close>

definition compose_Rt :: "ndarray \<Rightarrow> vec \<Rightarrow> exn + ndarray" where
  "compose_Rt Rm tv =
     (case set_block33 (zeros 4 4) (transpose Rm) of
        Inl e \<Rightarrow> Inl e
      | Inr Rt1 \<Rightarrow>
          (case set_col3 Rt1 tv of
             Inl e \<Rightarrow> Inl e
           | Inr Rt2 \<Rightarrow> Inr (set_33 Rt2 1)))"

text \<open>Modelled from the spec: \<^verbatim>\<open>graphics_utils.fov2focal\<close> is not among the
  sources. The spec gives it as the inverse of
  \<open>focalToFov(focal, pixelExtent) = 2 atan(pixelExtent / (2 focal))\<close>, failing only
  where \<open>tan(fov/2) = 0\<close>.\<close>

definition fov2focal :: "real \<Rightarrow> real \<Rightarrow> exn + real" where
  "fov2focal fov pixels =
     (if tan (fov / 2) = 0 then Inl ZeroDivisionError
      else Inr (pixels / (2 * tan (fov / 2))))"

text \<open>Modelled from the spec: \<^verbatim>\<open>graphics_utils.focal2fov\<close> is not among the
  sources. The spec gives \<open>2 atan(pixelExtent / (2 focal))\<close>; the quotient has no
  value at focal length 0, which the model reports as an error.\<close>

definition focal2fov :: "real \<Rightarrow> real \<Rightarrow> exn + real" where
  "focal2fov focal pixels =
     (if focal = 0 then Inl ZeroDivisionError
      else Inr (2 * arctan (pixels / (2 * focal))))"

record camera_entry =
  entry_id :: int
  img_name :: string
  entry_width :: nat
  entry_height :: nat
  position :: vec
  rotation :: ndarray
  fy :: real
  fx :: real

text \<open>The function is annotated with the class \<open>Camera\<close> but reads only the
  attributes \<open>R\<close>, \<open>T\<close>, \<open>image_name\<close>, \<open>width\<close>, \<open>height\<close>, \<open>FovY\<close> and
  \<open>FovX\<close>, which are the fields of a \<open>CameraInfo\<close>.\<close>

definition camera_to_JSON :: "int \<Rightarrow> CameraInfo \<Rightarrow> exn + camera_entry" where
  "camera_to_JSON i camera =
     (case compose_Rt (R camera) (T camera) of
        Inl e \<Rightarrow> Inl e
      | Inr Rt \<Rightarrow>
     (case linalg_inv Rt of
        Inl e \<Rightarrow> Inl e
      | Inr W2C \<Rightarrow>
     (case col3 W2C of
        Inl e \<Rightarrow> Inl e
      | Inr pos \<Rightarrow>
     (case fov2focal (FovY camera) (real (height camera)) of
        Inl e \<Rightarrow> Inl e
      | Inr fy' \<Rightarrow>
     (case fov2focal (FovX camera) (real (width camera)) of
        Inl e \<Rightarrow> Inl e
      | Inr fx' \<Rightarrow>
          Inr \<lparr>entry_id = i, img_name = image_name camera,
               entry_width = width camera, entry_height = height camera,
               position = pos, rotation = block33 W2C, fy = fy', fx = fx'\<rparr>)))))"

text \<open>The matrix that the data model of the spec gives for a record:
  \<open>[[R\<^sup>T, - R\<^sup>T T], [0, 1]]\<close>.\<close>

definition spec_worldToView :: "ndarray \<Rightarrow> vec \<Rightarrow> ndarray" where
  "spec_worldToView Rm tv =
     map2 (\<lambda>row x. row @ [x]) (transpose Rm) (map uminus (matvec (transpose Rm) tv))
     @ [[0, 0, 0, 1]]"

text \<open>The block matrix \<open>[[A, t], [0, 1]]\<close> of a 3 by 3 array and a 3-vector.\<close>

definition affine :: "ndarray \<Rightarrow> vec \<Rightarrow> ndarray" where
  "affine A t = map2 (\<lambda>row x. row @ [x]) A t @ [[0, 0, 0, 1]]"

section \<open>The scene normalizer: \<^verbatim>\<open>getNerfppNorm\<close>\<close>

text \<open>A loop that appends one result per element and stops at the first exception.\<close>

fun map_exn :: "('a \<Rightarrow> exn + 'b) \<Rightarrow> 'a list \<Rightarrow> exn + 'b list" where
  "map_exn f [] = Inr []"
| "map_exn f (x # xs) =
     (case f x of
        Inl e \<Rightarrow> Inl e
      | Inr y \<Rightarrow> (case map_exn f xs of Inl e \<Rightarrow> Inl e | Inr ys \<Rightarrow> Inr (y # ys)))"

text \<open>Modelled from the spec: \<^verbatim>\<open>graphics_utils.getWorld2View2\<close> is not among the
  sources. The spec describes \<open>worldToView(R, T, translate = 0, scale = 1.0)\<close> as the
  homogeneous transform \<open>[[R\<^sup>T, - R\<^sup>T T], [0, 1]]\<close> of a rotation and a translation,
  with an optional recentring and rescaling of the camera position, composed without
  an inversion. Under that matrix the camera position is \<open>T\<close>, so the recentred
  position is \<open>(T + translate) scale\<close>.\<close>

definition getWorld2View2 :: "ndarray \<Rightarrow> vec \<Rightarrow> vec \<Rightarrow> real \<Rightarrow> exn + ndarray" where
  "getWorld2View2 Rm tv translate scale =
     (if shape_ok 3 3 Rm \<and> length tv = 3 \<and> length translate = 3
      then (let c = map2 (\<lambda>t s. (t + s) * scale) tv translate
            in Inr (affine (transpose Rm) (map uminus (matvec (transpose Rm) c))))
      else Inl ValueError)"

record nerf_norm =
  translate :: vec
  radius :: real

text \<open>\<^verbatim>\<open>np.hstack\<close> of arrays with equally many rows, \<^verbatim>\<open>np.mean(axis=1,
  keepdims=True)\<close>, the subtraction of a column from every column,
  \<^verbatim>\<open>np.linalg.norm(axis=0, keepdims=True)\<close> and \<^verbatim>\<open>np.max\<close>.\<close>

fun hstack :: "ndarray list \<Rightarrow> exn + ndarray" where
  "hstack [] = Inl ValueError"
| "hstack [m] = Inr m"
| "hstack (m # ms) = (case hstack ms of Inl e \<Rightarrow> Inl e | Inr r \<Rightarrow> Inr (map2 (@) m r))"

definition mean_axis1 :: "ndarray \<Rightarrow> ndarray" where
  "mean_axis1 A = map (\<lambda>row. [sum_list row / real (length row)]) A"

definition sub_column :: "ndarray \<Rightarrow> ndarray \<Rightarrow> ndarray" where
  "sub_column A c = map2 (\<lambda>row m. map (\<lambda>x. x - hd m) row) A c"

definition norm_axis0 :: "ndarray \<Rightarrow> ndarray" where
  "norm_axis0 A = [map (\<lambda>col. sqrt (sum_list (map (\<lambda>x. x * x) col))) (transpose A)]"

definition np_max :: "ndarray \<Rightarrow> exn + real" where
  "np_max A = (case concat A of [] \<Rightarrow> Inl ValueError | x # xs \<Rightarrow> Inr (fold max xs x))"

definition get_center_and_diag :: "ndarray list \<Rightarrow> exn + vec \<times> real" where
  "get_center_and_diag cam_centers =
     (case hstack cam_centers of
        Inl e \<Rightarrow> Inl e
      | Inr cc \<Rightarrow>
          (let avg_cam_center = mean_axis1 cc;
               center = avg_cam_center;
               dist = norm_axis0 (sub_column cc center)
           in (case np_max dist of
                 Inl e \<Rightarrow> Inl e
               | Inr diagonal \<Rightarrow> Inr (concat center, diagonal))))"

text \<open>The body of the loop of lines 59 to 62: the camera centre of one record.\<close>

definition cam_center :: "CameraInfo \<Rightarrow> exn + ndarray" where
  "cam_center cam =
     (case getWorld2View2 (R cam) (T cam) [0, 0, 0] 1 of
        Inl e \<Rightarrow> Inl e
      | Inr W2C \<Rightarrow>
          (case linalg_inv W2C of
             Inl e \<Rightarrow> Inl e
           | Inr C2W \<Rightarrow> Inr (col3_keep C2W)))"

definition getNerfppNorm :: "CameraInfo list \<Rightarrow> exn + nerf_norm" where
  "getNerfppNorm cam_info =
     (case map_exn cam_center cam_info of
        Inl e \<Rightarrow> Inl e
      | Inr cam_centers \<Rightarrow>
          (case get_center_and_diag cam_centers of
             Inl e \<Rightarrow> Inl e
           | Inr (center, diagonal) \<Rightarrow>
               Inr \<lparr>translate = map uminus center, radius = diagonal * 1.1\<rparr>))"

text \<open>The words of the spec for the normalizer: the centroid of the camera positions
  and the Euclidean distance of a position from a point.\<close>

definition spec_centroid :: "vec list \<Rightarrow> vec" where
  "spec_centroid ps = map (\<lambda>k. (\<Sum>p\<leftarrow>ps. p ! k) / real (length ps)) [0, 1, 2]"

definition spec_distance :: "vec \<Rightarrow> vec \<Rightarrow> real" where
  "spec_distance c p = sqrt (\<Sum>k\<leftarrow>[0, 1, 2]. (p ! k - c ! k) * (p ! k - c ! k))"

text \<open>A 3-vector as the 3 by 1 array that \<^verbatim>\<open>C2W[:3, 3:4]\<close> yields.\<close>

definition column :: "vec \<Rightarrow> ndarray" where
  "column p = map (\<lambda>x. [x]) p"

text \<open>Two records to evaluate the readers on, the ones that the example store below
  yields: identity rotation, translations \<open>(-1, 0, 0)\<close> and \<open>(1, 0, 0)\<close>.\<close>

definition example_cam_a :: CameraInfo where
  "example_cam_a =
     \<lparr>uid = 1, R = [[1, 0, 0], [0, 1, 0], [0, 0, 1]], T = [- 1, 0, 0],
      FovY = 2 * arctan 1, FovX = 2 * arctan 1,
      depth_cam_path = None, depth_est_path = None, image_path = ''/scene/images/a.png'',
      image_name = ''a'', width = 800, height = 800\<rparr>"

definition example_cam_b :: CameraInfo where
  "example_cam_b =
     \<lparr>uid = 1, R = [[1, 0, 0], [0, 1, 0], [0, 0, 1]], T = [1, 0, 0],
      FovY = 2 * arctan 1, FovX = 2 * arctan 1,
      depth_cam_path = None, depth_est_path = None, image_path = ''/scene/images/b.png'',
      image_name = ''b'', width = 800, height = 800\<rparr>"

section \<open>The files and collaborators of a scene load\<close>

text \<open>
  What the readers see of the file system: directories, image files with their pixel
  size (all that \<^verbatim>\<open>Image.open(...).size\<close> reads), split documents with their
  \<open>train\<close> and \<open>test\<close> lists, camera manifests, and point-cloud files in the schema
  \<open>x, y, z, nx, ny, nz, red, green, blue\<close>.
\<close>

record frame =
  file_path :: string
  transform_matrix :: ndarray

record ply_vertex =
  vx :: real
  vy :: real
  vz :: real
  vnx :: real
  vny :: real
  vnz :: real
  red :: "8 word"
  green :: "8 word"
  blue :: "8 word"

datatype fobj =
    Directory
  | ImageFile nat nat
  | SplitYaml "string list" "string list"
  | Manifest real "frame list"
  | PlyFile "ply_vertex list"
  | OtherFile

text \<open>The state a load reads and writes: the files, and how many arrays have been
  drawn from \<^verbatim>\<open>np.random.random\<close>.\<close>

record world =
  fs :: "string \<rightharpoonup> fobj"
  draws :: nat

definition os_path_exists :: "world \<Rightarrow> string \<Rightarrow> bool" where
  "os_path_exists w p = (fs w p \<noteq> None)"

text \<open>The records of the reconstruction store, as \<^verbatim>\<open>colmap_loader\<close> (not among
  the sources) hands them over: the fields the readers use.\<close>

record colmap_image =
  qvec :: vec
  tvec :: vec
  camera_id :: int
  name :: string

record colmap_camera =
  intr_id :: int
  model :: string
  intr_width :: nat
  intr_height :: nat
  params :: vec

text \<open>Functions of this repository that are not among the sources and that the spec
  leaves to collaborators: the quaternion conversion and the parsers of
  \<^verbatim>\<open>colmap_loader\<close>, the colour mapping of \<^verbatim>\<open>sh_utils\<close>, and the random
  arrays (the array of the \<open>k\<close>-th draw with \<open>n\<close> rows of 3).\<close>

record collaborators =
  qvec2rotmat :: "vec \<Rightarrow> ndarray"
  read_extrinsics_binary :: "string \<Rightarrow> exn + (int \<times> colmap_image) list"
  read_intrinsics_binary :: "string \<Rightarrow> exn + (int \<rightharpoonup> colmap_camera)"
  read_extrinsics_text :: "string \<Rightarrow> exn + (int \<times> colmap_image) list"
  read_intrinsics_text :: "string \<Rightarrow> exn + (int \<rightharpoonup> colmap_camera)"
  read_points3D_binary :: "string \<Rightarrow> exn + ndarray \<times> ndarray"
  read_points3D_text :: "string \<Rightarrow> exn + ndarray \<times> ndarray"
  SH2RGB :: "ndarray \<Rightarrow> ndarray"
  np_random :: "nat \<Rightarrow> nat \<Rightarrow> ndarray"

record BasicPointCloud =
  points :: ndarray
  colors :: ndarray
  normals :: "ndarray option"

record SceneInfo =
  point_cloud :: BasicPointCloud
  train_cameras :: "CameraInfo list"
  test_cameras :: "CameraInfo list"
  nerf_normalization :: nerf_norm
  ply_path :: string

section \<open>The structure-from-motion adapter: \<^verbatim>\<open>readColmapCameras\<close>\<close>

text \<open>Lines 95 to 105: the fields of view of one entry, or the failed assertion.\<close>

definition colmap_fov :: "colmap_camera \<Rightarrow> exn + real \<times> real" where
  "colmap_fov intr =
     (if model intr = ''SIMPLE_PINHOLE'' then
        (case py_index (params intr) 0 of
           Inl e \<Rightarrow> Inl e
         | Inr focal_length_x \<Rightarrow>
        (case focal2fov focal_length_x (real (intr_height intr)) of
           Inl e \<Rightarrow> Inl e
         | Inr fov_y \<Rightarrow>
        (case focal2fov focal_length_x (real (intr_width intr)) of
           Inl e \<Rightarrow> Inl e
         | Inr fov_x \<Rightarrow> Inr (fov_y, fov_x))))
      else if model intr = ''PINHOLE'' then
        (case py_index (params intr) 0 of
           Inl e \<Rightarrow> Inl e
         | Inr focal_length_x \<Rightarrow>
        (case py_index (params intr) 1 of
           Inl e \<Rightarrow> Inl e
         | Inr focal_length_y \<Rightarrow>
        (case focal2fov focal_length_y (real (intr_height intr)) of
           Inl e \<Rightarrow> Inl e
         | Inr fov_y \<Rightarrow>
        (case focal2fov focal_length_x (real (intr_width intr)) of
           Inl e \<Rightarrow> Inl e
         | Inr fov_x \<Rightarrow> Inr (fov_y, fov_x)))))
      else Inl AssertionError)"

text \<open>Lines 107 to 114: the image path of one entry, with the retry under
  \<^verbatim>\<open>.png\<close>.\<close>

definition png_variant :: "string \<Rightarrow> string" where
  "png_variant p = hd (py_rsplit1 CHR ''.'' p) @ ''.png''"

definition colmap_image_path :: "world \<Rightarrow> string \<Rightarrow> string \<Rightarrow> exn + string" where
  "colmap_image_path w images_folder extr_name =
     (let p = path_join images_folder (basename extr_name);
          p' = (if \<not> os_path_exists w p then png_variant p else p)
      in if \<not> os_path_exists w p' then Inl (FileNotFoundError p') else Inr p')"

text \<open>The body of the loop of \<^verbatim>\<open>readColmapCameras\<close> (lines 86 to 137) for one
  entry of \<open>cam_extrinsics\<close>. The progress line written to the terminal is left out.\<close>

definition colmap_entry ::
  "collaborators \<Rightarrow> world \<Rightarrow> (int \<rightharpoonup> colmap_camera) \<Rightarrow> string \<Rightarrow> string option
     \<Rightarrow> string option \<Rightarrow> colmap_image \<Rightarrow> exn + CameraInfo" where
  "colmap_entry cs w cam_intrinsics images_folder depth_cam_folder depth_est_folder extr =
     (case cam_intrinsics (camera_id extr) of
        None \<Rightarrow> Inl KeyError
      | Some intr \<Rightarrow>
     (case colmap_fov intr of
        Inl e \<Rightarrow> Inl e
      | Inr (fov_y, fov_x) \<Rightarrow>
     (case colmap_image_path w images_folder (name extr) of
        Inl e \<Rightarrow> Inl e
      | Inr image_path' \<Rightarrow>
          (let image_name' =
                 hd (py_split CHR ''.''
                       (basename (path_join images_folder (basename (name extr)))))
           in Inr \<lparr>uid = intr_id intr,
                   R = transpose (qvec2rotmat cs (qvec extr)),
                   T = tvec extr,
                   FovY = fov_y, FovX = fov_x,
                   depth_cam_path = map_option (\<lambda>d. path_join d image_name') depth_cam_folder,
                   depth_est_path = map_option (\<lambda>d. path_join d image_name') depth_est_folder,
                   image_path = image_path', image_name = image_name',
                   width = intr_width intr, height = intr_height intr\<rparr>))))"

text \<open>The dictionary \<open>cam_extrinsics\<close> is a list of key and value in insertion
  order; the loop visits the values in that order.\<close>

definition readColmapCameras ::
  "collaborators \<Rightarrow> world \<Rightarrow> (int \<times> colmap_image) list \<Rightarrow> (int \<rightharpoonup> colmap_camera)
     \<Rightarrow> string \<Rightarrow> string option \<Rightarrow> string option \<Rightarrow> exn + CameraInfo list" where
  "readColmapCameras cs w cam_extrinsics cam_intrinsics images_folder depth_cam_folder
     depth_est_folder =
     map_exn (colmap_entry cs w cam_intrinsics images_folder depth_cam_folder depth_est_folder)
       (map snd cam_extrinsics)"

section \<open>The point-cloud cache: \<^verbatim>\<open>fetchPly\<close> and \<^verbatim>\<open>storePly\<close>\<close>

text \<open>\<^verbatim>\<open>fetchPly\<close>: positions as they are stored, colours divided by 255, no
  normals.\<close>

definition fetchPly :: "world \<Rightarrow> string \<Rightarrow> exn + BasicPointCloud" where
  "fetchPly w path =
     (case fs w path of
        None \<Rightarrow> Inl (FileNotFoundError path)
      | Some (PlyFile vertices) \<Rightarrow>
          Inr \<lparr>points = map (\<lambda>v. [vx v, vy v, vz v]) vertices,
               colors = map (\<lambda>v. [real (unat (red v)) / 255, real (unat (green v)) / 255,
                                   real (unat (blue v)) / 255]) vertices,
               normals = None\<rparr>
      | Some _ \<Rightarrow> Inl ReaderError)"

text \<open>The conversion of a floating-point value to the 8-bit field of the file:
  the fraction is cut off and the integer is reduced modulo 256.\<close>

definition to_u1 :: "real \<Rightarrow> 8 word" where
  "to_u1 v = word_of_int (if v < 0 then - \<lfloor>- v\<rfloor> else \<lfloor>v\<rfloor>)"

text \<open>\<^verbatim>\<open>storePly\<close>: one record per point, with normals 0; the concatenation along
  axis 1 needs equally many rows, and the record has nine fields. The rounding of the
  positions to 32 bits is not modelled.\<close>

definition storePly :: "world \<Rightarrow> string \<Rightarrow> ndarray \<Rightarrow> ndarray \<Rightarrow> (exn + unit) \<times> world" where
  "storePly w path xyz rgb =
     (if length xyz = length rgb \<and> shape_ok (length xyz) 3 xyz \<and> shape_ok (length rgb) 3 rgb
      then (Inr (),
            w\<lparr>fs := (fs w)(path \<mapsto> PlyFile
                 (map2 (\<lambda>p c. \<lparr>vx = p ! 0, vy = p ! 1, vz = p ! 2, vnx = 0, vny = 0, vnz = 0,
                                red = to_u1 (c ! 0), green = to_u1 (c ! 1),
                                blue = to_u1 (c ! 2)\<rparr>) xyz rgb))\<rparr>)
      else (Inl ValueError, w))"

section \<open>The scene assembler for reconstructions: \<^verbatim>\<open>readColmapSceneInfo\<close>\<close>

text \<open>Lines 168 to 177: the binary store, and the text store after any failure of
  the binary one.\<close>

definition read_colmap_store ::
  "collaborators \<Rightarrow> string \<Rightarrow> exn + (int \<times> colmap_image) list \<times> (int \<rightharpoonup> colmap_camera)" where
  "read_colmap_store cs path =
     (case (case read_extrinsics_binary cs (path_join (path_join path ''sparse'') ''images.bin'') of
              Inl e \<Rightarrow> Inl e
            | Inr cam_extrinsics \<Rightarrow>
                (case read_intrinsics_binary cs
                        (path_join (path_join path ''sparse'') ''cameras.bin'') of
                   Inl e \<Rightarrow> Inl e
                 | Inr cam_intrinsics \<Rightarrow> Inr (cam_extrinsics, cam_intrinsics))) of
        Inr r \<Rightarrow> Inr r
      | Inl _ \<Rightarrow>
          (case read_extrinsics_text cs (path_join (path_join path ''sparse'') ''images.txt'') of
             Inl e \<Rightarrow> Inl e
           | Inr cam_extrinsics \<Rightarrow>
               (case read_intrinsics_text cs
                       (path_join (path_join path ''sparse'') ''cameras.txt'') of
                  Inl e \<Rightarrow> Inl e
                | Inr cam_intrinsics \<Rightarrow> Inr (cam_extrinsics, cam_intrinsics))))"

text \<open>Lines 189 to 208 and 390 to 408: the partition of the cameras. Without
  evaluation every camera trains. With it, the split document is read (joining the
  path with \<open>None\<close> is a \<open>TypeError\<close>; a file that is no split document makes the
  parser or the subscripts raise) and each list keeps the cameras whose
  \<open>image_name\<close> it names.\<close>

definition split_cameras ::
  "world \<Rightarrow> string \<Rightarrow> bool \<Rightarrow> string option \<Rightarrow> CameraInfo list
     \<Rightarrow> exn + CameraInfo list \<times> CameraInfo list" where
  "split_cameras w path eval split_yml_name cam_infos =
     (if eval then
        (case split_yml_name of
           None \<Rightarrow> Inl TypeError
         | Some yml \<Rightarrow>
             (let split_file = path_join path yml in
              if \<not> os_path_exists w split_file then Inl (FileNotFoundError split_file)
              else (case fs w split_file of
                      Some (SplitYaml train_list test_list) \<Rightarrow>
                        Inr (filter (\<lambda>c. image_name c \<in> set train_list) cam_infos,
                             filter (\<lambda>c. image_name c \<in> set test_list) cam_infos)
                    | _ \<Rightarrow> Inl ReaderError)))
      else Inr (cam_infos, []))"

text \<open>Lines 214 to 224: the cache of the reconstruction's points.\<close>

definition colmap_point_cloud ::
  "collaborators \<Rightarrow> world \<Rightarrow> string \<Rightarrow> (exn + BasicPointCloud) \<times> world" where
  "colmap_point_cloud cs w path =
     (let ply = path_join path ''sparse/points3D.ply'';
          bin_path = path_join path ''sparse/points3D.bin'';
          txt_path = path_join path ''sparse/points3D.txt''
      in if \<not> os_path_exists w ply then
           (case (case read_points3D_binary cs bin_path of
                    Inr r \<Rightarrow> Inr r
                  | Inl _ \<Rightarrow> read_points3D_text cs txt_path) of
              Inl e \<Rightarrow> (Inl e, w)
            | Inr (xyz, rgb) \<Rightarrow>
                (case storePly w ply xyz rgb of
                   (Inl e, w') \<Rightarrow> (Inl e, w')
                 | (Inr _, w') \<Rightarrow> (fetchPly w' ply, w')))
         else (fetchPly w ply, w))"

definition readColmapSceneInfo ::
  "collaborators \<Rightarrow> world \<Rightarrow> string \<Rightarrow> string option \<Rightarrow> bool \<Rightarrow> string option
     \<Rightarrow> (exn + SceneInfo) \<times> world" where
  "readColmapSceneInfo cs w path images eval split_yml_name =
     (case read_colmap_store cs path of
        Inl e \<Rightarrow> (Inl e, w)
      | Inr (cam_extrinsics, cam_intrinsics) \<Rightarrow>
     (let reading_dir = (case images of None \<Rightarrow> ''images'' | Some d \<Rightarrow> d) in
      case readColmapCameras cs w cam_extrinsics cam_intrinsics (path_join path reading_dir)
             (if os_path_exists w (path_join path ''depths_cam'')
              then Some (path_join path ''depths_cam'') else None)
             (if os_path_exists w (path_join path ''depths_est'')
              then Some (path_join path ''depths_est'') else None) of
        Inl e \<Rightarrow> (Inl e, w)
      | Inr cam_infos_unsorted \<Rightarrow>
     (let cam_infos = sort_key image_name cam_infos_unsorted in
      case split_cameras w path eval split_yml_name cam_infos of
        Inl e \<Rightarrow> (Inl e, w)
      | Inr (train_cam_infos, test_cam_infos) \<Rightarrow>
     (case getNerfppNorm train_cam_infos of
        Inl e \<Rightarrow> (Inl e, w)
      | Inr nerf_normalization' \<Rightarrow>
     (case colmap_point_cloud cs w path of
        (Inl e, w') \<Rightarrow> (Inl e, w')
      | (Inr pcd, w') \<Rightarrow>
          (Inr \<lparr>point_cloud = pcd, train_cameras = train_cam_infos,
                test_cameras = test_cam_infos,
                nerf_normalization = nerf_normalization',
                ply_path = path_join path ''sparse/points3D.ply''\<rparr>, w'))))))"

section \<open>The manifest adapter: \<^verbatim>\<open>readCamerasFromTransforms\<close>\<close>

subsection \<open>Calling a Python function\<close>

text \<open>
  The callers of \<^verbatim>\<open>readCamerasFromTransforms\<close> pass some arguments by position
  and some by keyword, and the function has parameters with and without defaults.
  Python binds the positional arguments to the parameters in order, then the keyword
  arguments by name, then the defaults; a positional argument too many, an unknown or
  doubly bound keyword, and a parameter without default that received no argument each
  raise \<open>TypeError\<close> before the body runs.
\<close>

datatype pyval = PNone | PBool bool | PStr string

fun bind_positional :: "string list \<Rightarrow> pyval list \<Rightarrow> exn + (string \<times> pyval) list" where
  "bind_positional ns [] = Inr []"
| "bind_positional [] (v # vs) = Inl TypeError"
| "bind_positional (n # ns) (v # vs) =
     (case bind_positional ns vs of Inl e \<Rightarrow> Inl e | Inr b \<Rightarrow> Inr ((n, v) # b))"

definition bind_args ::
  "(string \<times> pyval option) list \<Rightarrow> pyval list \<Rightarrow> (string \<times> pyval) list
     \<Rightarrow> exn + (string \<Rightarrow> pyval)" where
  "bind_args sig pos kw =
     (case bind_positional (map fst sig) pos of
        Inl e \<Rightarrow> Inl e
      | Inr bp \<Rightarrow>
          if list_ex (\<lambda>k. k \<notin> set (map fst sig) \<or> k \<in> set (map fst bp)) (map fst kw)
          then Inl TypeError
          else (let given = map_of (bp @ kw);
                    default = map_of sig
                in if list_ex (\<lambda>n. given n = None \<and> default n = Some None) (map fst sig)
                   then Inl TypeError
                   else Inr (\<lambda>n. case given n of
                                     Some v \<Rightarrow> v
                                   | None \<Rightarrow> (case default n of
                                                Some (Some d) \<Rightarrow> d
                                              | _ \<Rightarrow> PNone))))"

text \<open>A value used where the library needs a string (\<^verbatim>\<open>os.path.join\<close>, string
  concatenation), a value that may be \<open>None\<close> or such a string, and the truth value
  of a value in a condition.\<close>

definition as_str :: "pyval \<Rightarrow> exn + string" where
  "as_str v = (case v of PStr s \<Rightarrow> Inr s | _ \<Rightarrow> Inl TypeError)"

definition truthy :: "pyval \<Rightarrow> bool" where
  "truthy v = (case v of PNone \<Rightarrow> False | PBool b \<Rightarrow> b | PStr s \<Rightarrow> s \<noteq> [])"

subsection \<open>One frame of the manifest\<close>

text \<open>Lines 252 to 259: the image of a frame, probed under the given extension and
  then under \<^verbatim>\<open>.png\<close>.\<close>

definition transforms_cam_name :: "world \<Rightarrow> pyval \<Rightarrow> pyval \<Rightarrow> string \<Rightarrow> exn + string" where
  "transforms_cam_name w images_dir extension fp =
     (case py_index (py_rsplit1 CHR ''/'' fp) 1 of
        Inl e \<Rightarrow> Inl e
      | Inr tail \<Rightarrow>
     (case as_str images_dir of
        Inl e \<Rightarrow> Inl e
      | Inr d \<Rightarrow>
     (case as_str extension of
        Inl e \<Rightarrow> Inl e
      | Inr ext \<Rightarrow>
          (let cam_name = path_join d tail;
               cam_name' = (if os_path_exists w (cam_name @ ext) then cam_name @ ext
                            else cam_name @ ''.png'')
           in if \<not> os_path_exists w cam_name' then Inl (FileNotFoundError cam_name')
              else Inr cam_name'))))"

text \<open>Line 265, \<^verbatim>\<open>c2w[:3, 1:3] *= -1\<close>: the second and third column of the first
  three rows change sign.\<close>

definition opengl_flip :: "ndarray \<Rightarrow> ndarray" where
  "opengl_flip c2w =
     map (\<lambda>row. take 1 row @ map uminus (take 2 (drop 1 row)) @ drop 3 row) (take 3 c2w)
     @ drop 3 c2w"

text \<open>Lines 262 to 270: the world-to-camera matrix of a frame and the rotation and
  translation stored for it.\<close>

definition transforms_w2c :: "pyval \<Rightarrow> ndarray \<Rightarrow> exn + ndarray" where
  "transforms_w2c isOpenGL tm = linalg_inv (if truthy isOpenGL then opengl_flip tm else tm)"

definition image_open :: "world \<Rightarrow> string \<Rightarrow> exn + nat \<times> nat" where
  "image_open w p =
     (case fs w p of
        None \<Rightarrow> Inl (FileNotFoundError p)
      | Some (ImageFile wd ht) \<Rightarrow> Inr (wd, ht)
      | Some _ \<Rightarrow> Inl UnidentifiedImageError)"

definition depth_path :: "pyval \<Rightarrow> string \<Rightarrow> exn + string option" where
  "depth_path folder image_name' =
     (case folder of
        PNone \<Rightarrow> Inr None
      | PStr d \<Rightarrow> Inr (Some (path_join d image_name'))
      | PBool _ \<Rightarrow> Inl TypeError)"

definition transforms_frame ::
  "world \<Rightarrow> string \<Rightarrow> pyval \<Rightarrow> pyval \<Rightarrow> pyval \<Rightarrow> pyval \<Rightarrow> pyval \<Rightarrow> real
     \<Rightarrow> nat \<times> frame \<Rightarrow> exn + CameraInfo" where
  "transforms_frame w path images_dir depth_cam_folder depth_est_folder isOpenGL extension fovx
     entry =
     (case transforms_cam_name w images_dir extension (file_path (snd entry)) of
        Inl e \<Rightarrow> Inl e
      | Inr cam_name \<Rightarrow>
     (case transforms_w2c isOpenGL (transform_matrix (snd entry)) of
        Inl e \<Rightarrow> Inl e
      | Inr w2c \<Rightarrow>
     (case col3 w2c of
        Inl e \<Rightarrow> Inl e
      | Inr tv \<Rightarrow>
     (case image_open w (path_join path cam_name) of
        Inl e \<Rightarrow> Inl e
      | Inr (image_w, image_h) \<Rightarrow>
     (case fov2focal fovx (real image_w) of
        Inl e \<Rightarrow> Inl e
      | Inr focal \<Rightarrow>
     (case focal2fov focal (real image_h) of
        Inl e \<Rightarrow> Inl e
      | Inr fovy \<Rightarrow>
     (case depth_path depth_cam_folder (path_stem cam_name) of
        Inl e \<Rightarrow> Inl e
      | Inr dc \<Rightarrow>
     (case depth_path depth_est_folder (path_stem cam_name) of
        Inl e \<Rightarrow> Inl e
      | Inr de \<Rightarrow>
          Inr \<lparr>uid = int (fst entry),
               R = transpose (block33 w2c),
               T = tv,
               FovY = fovy, FovX = fovx,
               depth_cam_path = dc, depth_est_path = de,
               image_path = path_join path cam_name, image_name = path_stem cam_name,
               width = image_w, height = image_h\<rparr>))))))))"

subsection \<open>The function and its signature\<close>

definition readCamerasFromTransforms_params :: "(string \<times> pyval option) list" where
  "readCamerasFromTransforms_params =
     [(''path'', None), (''images_dir'', None), (''transformsfile'', None),
      (''white_background'', None), (''depth_cam_folder'', Some PNone),
      (''depth_est_folder'', Some PNone), (''isOpenGL'', Some (PBool False)),
      (''extension'', Some (PStr ''.jpg''))]"

text \<open>The body, lines 244 to 304, on the bound parameters \<open>a\<close>. A file that is no
  manifest makes the JSON parser or the subscripts raise.\<close>

definition readCamerasFromTransforms_body ::
  "world \<Rightarrow> (string \<Rightarrow> pyval) \<Rightarrow> exn + CameraInfo list" where
  "readCamerasFromTransforms_body w a =
     (case as_str (a ''path'') of
        Inl e \<Rightarrow> Inl e
      | Inr path \<Rightarrow>
     (case as_str (a ''transformsfile'') of
        Inl e \<Rightarrow> Inl e
      | Inr transformsfile \<Rightarrow>
     (case fs w (path_join path transformsfile) of
        None \<Rightarrow> Inl (FileNotFoundError (path_join path transformsfile))
      | Some (Manifest fovx frames) \<Rightarrow>
          map_exn (transforms_frame w path (a ''images_dir'') (a ''depth_cam_folder'')
                     (a ''depth_est_folder'') (a ''isOpenGL'') (a ''extension'') fovx)
            (zip [0..<length frames] frames)
      | Some _ \<Rightarrow> Inl ReaderError)))"

definition readCamerasFromTransforms ::
  "world \<Rightarrow> pyval list \<Rightarrow> (string \<times> pyval) list \<Rightarrow> exn + CameraInfo list" where
  "readCamerasFromTransforms w pos kw =
     (case bind_args readCamerasFromTransforms_params pos kw of
        Inl e \<Rightarrow> Inl e
      | Inr a \<Rightarrow> readCamerasFromTransforms_body w a)"

section \<open>The scene assemblers for manifests\<close>

text \<open>Lines 319 to 331 and 376 to 388: the cache of the random initial points. When
  the file is missing, two arrays are drawn, the points are placed by \<open>place\<close> and
  the file is written; in either case the scene's points are then read from the file.\<close>

definition random_point_cloud ::
  "collaborators \<Rightarrow> world \<Rightarrow> string \<Rightarrow> nat \<Rightarrow> (ndarray \<Rightarrow> ndarray)
     \<Rightarrow> (exn + BasicPointCloud) \<times> world" where
  "random_point_cloud cs w ply num_pts place =
     (if \<not> os_path_exists w ply then
        (let xyz = place (np_random cs (draws w) num_pts);
             shs = map (map (\<lambda>v. v / 255)) (np_random cs (draws w + 1) num_pts);
             w1 = w\<lparr>draws := draws w + 2\<rparr>
         in (case storePly w1 ply xyz (map (map (\<lambda>v. v * 255)) (SH2RGB cs shs)) of
               (Inl e, w') \<Rightarrow> (Inl e, w')
             | (Inr _, w') \<Rightarrow> (fetchPly w' ply, w')))
      else (fetchPly w ply, w))"

text \<open>\<^verbatim>\<open>readNerfSyntheticInfo\<close>. Both calls of the adapter pass three positional
  arguments, the path, the name of the manifest and \<open>white_background\<close>, and the
  keywords \<open>isOpenGL\<close> and \<open>extension\<close>.\<close>

definition readNerfSyntheticInfo ::
  "collaborators \<Rightarrow> world \<Rightarrow> string \<Rightarrow> bool \<Rightarrow> bool \<Rightarrow> string \<Rightarrow> (exn + SceneInfo) \<times> world" where
  "readNerfSyntheticInfo cs w path white_background eval extension =
     (case readCamerasFromTransforms w
             [PStr path, PStr ''transforms_train.json'', PBool white_background]
             [(''isOpenGL'', PBool True), (''extension'', PStr extension)] of
        Inl e \<Rightarrow> (Inl e, w)
      | Inr train_cam_infos \<Rightarrow>
     (case readCamerasFromTransforms w
             [PStr path, PStr ''transforms_test.json'', PBool white_background]
             [(''isOpenGL'', PBool True), (''extension'', PStr extension)] of
        Inl e \<Rightarrow> (Inl e, w)
      | Inr test_cam_infos \<Rightarrow>
     (let train_cam_infos' = (if \<not> eval then train_cam_infos @ test_cam_infos
                              else train_cam_infos);
          test_cam_infos' = (if \<not> eval then [] else test_cam_infos)
      in case getNerfppNorm train_cam_infos' of
        Inl e \<Rightarrow> (Inl e, w)
      | Inr nerf_normalization' \<Rightarrow>
     (case random_point_cloud cs w (path_join path ''points3d.ply'') 100000
             (map (map (\<lambda>v. v * 2.6 - 1.3))) of
        (Inl e, w') \<Rightarrow> (Inl e, w')
      | (Inr pcd, w') \<Rightarrow>
          (Inr \<lparr>point_cloud = pcd, train_cameras = train_cam_infos',
                test_cameras = test_cam_infos',
                nerf_normalization = nerf_normalization',
                ply_path = path_join path ''points3d.ply''\<rparr>, w')))))"

text \<open>Lines 369 to 374: the box of the translations of the cameras. The columns of
  a non-empty stack of 3-vectors are non-empty.\<close>

definition axis0_min :: "vec list \<Rightarrow> vec" where
  "axis0_min vs = map (\<lambda>col. fold min (tl col) (hd col)) (transpose vs)"

definition axis0_max :: "vec list \<Rightarrow> vec" where
  "axis0_max vs = map (\<lambda>col. fold max (tl col) (hd col)) (transpose vs)"

definition vec_norm :: "vec \<Rightarrow> real" where
  "vec_norm v = sqrt (sum_list (map (\<lambda>x. x * x) v))"

definition toydesk_place :: "CameraInfo list \<Rightarrow> ndarray \<Rightarrow> ndarray" where
  "toydesk_place cam_infos rnd =
     (let cam_centers = map T cam_infos;
          cam_centers_min = axis0_min cam_centers;
          cam_centers_max = axis0_max cam_centers;
          cam_centers_radius = vec_norm (map2 (-) cam_centers_max cam_centers_min) / 2;
          cam_centers_center = map (\<lambda>s. s / 2) (map2 (+) cam_centers_max cam_centers_min)
      in map (\<lambda>row. map2 (\<lambda>v c. (v - 0.5) * 4 * cam_centers_radius + c) row
                       cam_centers_center) rnd)"

text \<open>\<^verbatim>\<open>readToyDeskSceneInfo\<close>. The adapter is called with four positional
  arguments and the keywords \<open>depth_cam_folder\<close>, \<open>depth_est_folder\<close> and
  \<open>extension\<close>. Stacking an empty list of translations raises \<open>ValueError\<close>.\<close>

definition readToyDeskSceneInfo ::
  "collaborators \<Rightarrow> world \<Rightarrow> string \<Rightarrow> string option \<Rightarrow> bool \<Rightarrow> bool \<Rightarrow> string
     \<Rightarrow> string option \<Rightarrow> (exn + SceneInfo) \<times> world" where
  "readToyDeskSceneInfo cs w path images white_background eval extension split_yml_name =
     (let images_dir = (case images of None \<Rightarrow> ''images'' | Some d \<Rightarrow> d) in
      case readCamerasFromTransforms w
             [PStr path, PStr (path_join path images_dir), PStr ''transforms_full.json'',
              PBool white_background]
             [(''depth_cam_folder'',
                 if os_path_exists w (path_join path ''depths'')
                 then PStr (path_join path ''depths'') else PNone),
              (''depth_est_folder'',
                 if os_path_exists w (path_join path ''depths_est'')
                 then PStr (path_join path ''depths_est'') else PNone),
              (''extension'', PStr extension)] of
        Inl e \<Rightarrow> (Inl e, w)
      | Inr cam_infos \<Rightarrow>
     (case getNerfppNorm cam_infos of
        Inl e \<Rightarrow> (Inl e, w)
      | Inr nerf_normalization' \<Rightarrow>
     (if cam_infos = [] then (Inl ValueError, w)
      else
     (case random_point_cloud cs w (path_join path ''points3d.ply'') 360000
             (toydesk_place cam_infos) of
        (Inl e, w') \<Rightarrow> (Inl e, w')
      | (Inr pcd, w') \<Rightarrow>
     (case split_cameras w' path eval split_yml_name cam_infos of
        Inl e \<Rightarrow> (Inl e, w')
      | Inr (train_cam_infos, test_cam_infos) \<Rightarrow>
          (Inr \<lparr>point_cloud = pcd, train_cameras = train_cam_infos,
                test_cameras = test_cam_infos,
                nerf_normalization = nerf_normalization',
                ply_path = path_join path ''points3d.ply''\<rparr>, w'))))))"

section \<open>\<^verbatim>\<open>camera_utils.loadCam\<close>\<close>

text \<open>The module-level flag \<open>WARNED\<close> and the lines printed so far are the state of
  the process. The arguments carry a resolution, which may be an integer or a
  fraction, and the device; the object built by the constructor of \<open>Camera\<close> (not
  among the sources) is the record of the arguments it is given.\<close>

record cu_state =
  WARNED :: bool
  stdout :: "string list"

record ModelParams =
  resolution :: real
  data_device :: string

record Camera =
  c_colmap_id :: int
  c_R :: ndarray
  c_T :: vec
  c_FoVx :: real
  c_FoVy :: real
  c_resolution :: "int \<times> int"
  c_image_path :: string
  c_depth_cam_path :: "string option"
  c_depth_est_path :: "string option"
  c_image_name :: string
  c_uid :: int
  c_data_device :: string

definition module_init :: cu_state where
  "module_init = \<lparr>WARNED = False, stdout = []\<rparr>"

definition oversize_warning :: string where
  "oversize_warning =
     ''[ INFO ] Encountered quite large input images (>1.6K pixels width), rescaling to 1.6K.''
     @ [CHR 0x0A] @ '' If this is not desired, please explicitly specify ''
     @ [CHR 0x27] @ ''--resolution/-r'' @ [CHR 0x27] @ '' as 1''"

text \<open>\<^verbatim>\<open>round\<close> on a quotient (a tie goes to the even neighbour), \<^verbatim>\<open>int\<close>
  (the fraction is cut off) and the division, which raises at 0.\<close>

definition py_round :: "real \<Rightarrow> int" where
  "py_round x =
     (let f = \<lfloor>x\<rfloor> in
      if x - of_int f < 1 / 2 then f
      else if x - of_int f > 1 / 2 then f + 1
      else if even f then f else f + 1)"

definition py_int :: "real \<Rightarrow> int" where
  "py_int x = (if x < 0 then - \<lfloor>- x\<rfloor> else \<lfloor>x\<rfloor>)"

definition py_truediv :: "real \<Rightarrow> real \<Rightarrow> exn + real" where
  "py_truediv a b = (if b = 0 then Inl ZeroDivisionError else Inr (a / b))"

text \<open>Lines 27 to 44: the target resolution, the factor \<open>global_down\<close> with the
  warning, and the state after it.\<close>

definition loadCam_resolution ::
  "cu_state \<Rightarrow> ModelParams \<Rightarrow> real \<Rightarrow> nat \<Rightarrow> nat \<Rightarrow> (exn + int \<times> int) \<times> cu_state" where
  "loadCam_resolution s args resolution_scale orig_w orig_h =
     (if resolution args \<in> set [1, 2, 4, 8] then
        (case py_truediv (real orig_w) (resolution_scale * resolution args) of
           Inl e \<Rightarrow> (Inl e, s)
         | Inr qw \<Rightarrow>
        (case py_truediv (real orig_h) (resolution_scale * resolution args) of
           Inl e \<Rightarrow> (Inl e, s)
         | Inr qh \<Rightarrow> (Inr (py_round qw, py_round qh), s)))
      else
        (let (gd, s') =
               (if resolution args = - 1 then
                  (if orig_w > 1600 then
                     (Inr (real orig_w / 1600),
                      if \<not> WARNED s
                      then s\<lparr>stdout := stdout s @ [oversize_warning], WARNED := True\<rparr>
                      else s)
                   else (Inr 1, s))
                else (py_truediv (real orig_w) (resolution args), s))
         in (case gd of
               Inl e \<Rightarrow> (Inl e, s')
             | Inr global_down \<Rightarrow>
            (case py_truediv (real orig_w) (global_down * resolution_scale) of
               Inl e \<Rightarrow> (Inl e, s')
             | Inr qw \<Rightarrow>
            (case py_truediv (real orig_h) (global_down * resolution_scale) of
               Inl e \<Rightarrow> (Inl e, s')
             | Inr qh \<Rightarrow> (Inr (py_int qw, py_int qh), s'))))))"

definition loadCam ::
  "cu_state \<Rightarrow> world \<Rightarrow> ModelParams \<Rightarrow> int \<Rightarrow> CameraInfo \<Rightarrow> real \<Rightarrow> (exn + Camera) \<times> cu_state" where
  "loadCam s w args i cam_info resolution_scale =
     (case image_open w (image_path cam_info) of
        Inl e \<Rightarrow> (Inl e, s)
      | Inr (orig_w, orig_h) \<Rightarrow>
     (case loadCam_resolution s args resolution_scale orig_w orig_h of
        (Inl e, s') \<Rightarrow> (Inl e, s')
      | (Inr res, s') \<Rightarrow>
          (Inr \<lparr>c_colmap_id = uid cam_info, c_R = R cam_info, c_T = T cam_info,
                c_FoVx = FovX cam_info, c_FoVy = FovY cam_info, c_resolution = res,
                c_image_path = image_path cam_info,
                c_depth_cam_path = depth_cam_path cam_info,
                c_depth_est_path = depth_est_path cam_info,
                c_image_name = image_name cam_info, c_uid = i,
                c_data_device = data_device args\<rparr>, s')))"

text \<open>A sequence of calls in one process, each with its own arguments and view of the
  files; a call that raises leaves the state as it was when it raised, and the
  process may go on.\<close>

record loadCam_call =
  call_world :: world
  call_args :: ModelParams
  call_id :: int
  call_cam_info :: CameraInfo
  call_resolution_scale :: real

fun loadCam_calls :: "cu_state \<Rightarrow> loadCam_call list \<Rightarrow> (exn + Camera) list \<times> cu_state" where
  "loadCam_calls s [] = ([], s)"
| "loadCam_calls s (c # cs) =
     (case loadCam s (call_world c) (call_args c) (call_id c) (call_cam_info c)
             (call_resolution_scale c) of
        (r, s') \<Rightarrow> (case loadCam_calls s' cs of (rs, s'') \<Rightarrow> (r # rs, s'')))"

text \<open>What lines 30 to 41 leave behind in the second branch, stated apart for the
  proofs: the factor, and the state after the warning.\<close>

definition global_down_of :: "ModelParams \<Rightarrow> nat \<Rightarrow> exn + real" where
  "global_down_of args ow =
     (if resolution args = - 1 then (if ow > 1600 then Inr (real ow / 1600) else Inr 1)
      else py_truediv (real ow) (resolution args))"

definition warned_after :: "cu_state \<Rightarrow> ModelParams \<Rightarrow> nat \<Rightarrow> cu_state" where
  "warned_after s args ow =
     (if \<not> WARNED s \<and> resolution args = - 1 \<and> ow > 1600
      then s\<lparr>stdout := stdout s @ [oversize_warning], WARNED := True\<rparr> else s)"

section \<open>Example data\<close>

text \<open>Collaborators and files to evaluate the readers on. The quaternion conversion
  is the usual one for a unit quaternion \<open>(w, x, y, z)\<close>; the store at
  \<^verbatim>\<open>/scene/sparse\<close> holds two views that share one pinhole camera.\<close>

definition example_qvec2rotmat :: "vec \<Rightarrow> ndarray" where
  "example_qvec2rotmat q =
     (case q of
        [qw, qx, qy, qz] \<Rightarrow>
          [[1 - 2 * qy * qy - 2 * qz * qz, 2 * qx * qy - 2 * qz * qw, 2 * qx * qz + 2 * qy * qw],
           [2 * qx * qy + 2 * qz * qw, 1 - 2 * qx * qx - 2 * qz * qz, 2 * qy * qz - 2 * qx * qw],
           [2 * qx * qz - 2 * qy * qw, 2 * qy * qz + 2 * qx * qw, 1 - 2 * qx * qx - 2 * qy * qy]]
      | _ \<Rightarrow> [])"

definition example_images :: "(int \<times> colmap_image) list" where
  "example_images =
     [(1, \<lparr>qvec = [1, 0, 0, 0], tvec = [1, 0, 0], camera_id = 1, name = ''b.jpg''\<rparr>),
      (2, \<lparr>qvec = [1, 0, 0, 0], tvec = [- 1, 0, 0], camera_id = 1, name = ''a.png''\<rparr>)]"

definition example_camera :: colmap_camera where
  "example_camera =
     \<lparr>intr_id = 1, model = ''PINHOLE'', intr_width = 800, intr_height = 800,
      params = [400, 400, 400, 400]\<rparr>"

definition example_collaborators :: collaborators where
  "example_collaborators =
     \<lparr>qvec2rotmat = example_qvec2rotmat,
      read_extrinsics_binary =
        (\<lambda>p. if p = ''/scene/sparse/images.bin'' then Inr example_images else Inl ReaderError),
      read_intrinsics_binary =
        (\<lambda>p. if p = ''/scene/sparse/cameras.bin'' then Inr [1 \<mapsto> example_camera]
             else Inl ReaderError),
      read_extrinsics_text = (\<lambda>p. Inl ReaderError),
      read_intrinsics_text = (\<lambda>p. Inl ReaderError),
      read_points3D_binary = (\<lambda>p. Inl ReaderError),
      read_points3D_text = (\<lambda>p. Inl ReaderError),
      SH2RGB = map (map (\<lambda>v. v * 0.28209479177387814 + 0.5)),
      np_random = (\<lambda>k n. replicate n [0.5, 0.5, 0.5])\<rparr>"

definition example_vertex :: ply_vertex where
  "example_vertex =
     \<lparr>vx = 1, vy = 2, vz = 3, vnx = 0, vny = 0, vnz = 0, red = 255, green = 0, blue = 51\<rparr>"

definition example_fs :: "string \<rightharpoonup> fobj" where
  "example_fs =
     [''/scene/images'' \<mapsto> Directory,
      ''/scene/images/a.png'' \<mapsto> ImageFile 800 800,
      ''/scene/images/b.png'' \<mapsto> ImageFile 800 800,
      ''/scene/split.yml'' \<mapsto> SplitYaml [''a''] [''b''],
      ''/scene/split_overlap.yml'' \<mapsto> SplitYaml [''a'', ''b''] [''a''],
      ''/scene/sparse/points3D.ply'' \<mapsto> PlyFile [example_vertex],
      ''/scene/points3d.ply'' \<mapsto> PlyFile [example_vertex],
      ''/scene/transforms_full.json'' \<mapsto>
         Manifest 0.6911
           [\<lparr>file_path = ''./images/a'',
              transform_matrix = [[1, 0, 0, 1], [0, 1, 0, 0], [0, 0, 1, 0], [0, 0, 0, 1]]\<rparr>,
            \<lparr>file_path = ''./images/b'',
              transform_matrix = [[1, 0, 0, - 1], [0, 1, 0, 0], [0, 0, 1, 0], [0, 0, 0, 1]]\<rparr>],
      ''/scene/transforms_train.json'' \<mapsto>
         Manifest 0.6911
           [\<lparr>file_path = ''./images/a'',
              transform_matrix = [[1, 0, 0, 0], [0, 1, 0, 0], [0, 0, 1, 0], [0, 0, 0, 1]]\<rparr>],
      ''/scene/transforms_test.json'' \<mapsto> Manifest 0.6911 []]"

definition example_world :: world where
  "example_world = \<lparr>fs = example_fs, draws = 0\<rparr>"

text \<open>The same store with a camera model that the adapter does not support.\<close>

definition example_opencv :: collaborators where
  "example_opencv = example_collaborators
     \<lparr>read_intrinsics_binary := (\<lambda>p. Inr [1 \<mapsto> example_camera\<lparr>model := ''OPENCV''\<rparr>])\<rparr>"

text \<open>The records that the manifest \<^verbatim>\<open>/scene/transforms_full.json\<close> yields.\<close>

definition example_frame_a :: CameraInfo where
  "example_frame_a =
     \<lparr>uid = 0, R = [[1, 0, 0], [0, 1, 0], [0, 0, 1]], T = [- 1, 0, 0],
      FovY = 0.6911, FovX = 0.6911,
      depth_cam_path = None, depth_est_path = None, image_path = ''/scene/images/a.png'',
      image_name = ''a'', width = 800, height = 800\<rparr>"

definition example_frame_b :: CameraInfo where
  "example_frame_b =
     \<lparr>uid = 1, R = [[1, 0, 0], [0, 1, 0], [0, 0, 1]], T = [1, 0, 0],
      FovY = 0.6911, FovX = 0.6911,
      depth_cam_path = None, depth_est_path = None, image_path = ''/scene/images/b.png'',
      image_name = ''b'', width = 800, height = 800\<rparr>"

text \<open>The scenes that the example loads assemble.\<close>

definition example_colmap_scene :: SceneInfo where
  "example_colmap_scene =
     \<lparr>point_cloud = \<lparr>points = [[1, 2, 3]], colors = [[1, 0, 1 / 5]], normals = None\<rparr>,
      train_cameras = [example_cam_a, example_cam_b], test_cameras = [],
      nerf_normalization = \<lparr>translate = [0, 0, 0], radius = 11 / 10\<rparr>,
      ply_path = ''/scene/sparse/points3D.ply''\<rparr>"

definition example_toydesk_scene :: SceneInfo where
  "example_toydesk_scene =
     \<lparr>point_cloud = \<lparr>points = [[1, 2, 3]], colors = [[1, 0, 1 / 5]], normals = None\<rparr>,
      train_cameras = [example_frame_a], test_cameras = [example_frame_b],
      nerf_normalization = \<lparr>translate = [0, 0, 0], radius = 11 / 10\<rparr>,
      ply_path = ''/scene/points3d.ply''\<rparr>"

text \<open>The parameters of the adapter as the load of the example scene binds them.\<close>

definition example_args :: "string \<Rightarrow> pyval" where
  "example_args n =
     (if n = ''path'' then PStr ''/scene''
      else if n = ''images_dir'' then PStr ''/scene/images''
      else if n = ''transformsfile'' then PStr ''transforms_full.json''
      else if n = ''white_background'' then PBool False
      else if n = ''isOpenGL'' then PBool False
      else if n = ''extension'' then PStr ''.png''
      else PNone)"

text \<open>A call of \<^verbatim>\<open>loadCam\<close> on an image 3200 pixels wide, at resolution -1.\<close>

definition example_oversize_call :: loadCam_call where
  "example_oversize_call =
     \<lparr>call_world = \<lparr>fs = [''/scene/images/a.png'' \<mapsto> ImageFile 3200 1600], draws = 0\<rparr>,
      call_args = \<lparr>resolution = - 1, data_device = ''cuda''\<rparr>,
      call_id = 0, call_cam_info = example_cam_a, call_resolution_scale = 1\<rparr>"



section \<open>Properties\<close>

subsection \<open>Shapes and the inverse of a rigid transform\<close>

lemmas mat_eval = del_at_def upt_rec cofactor_def shape_ok_def

lemma list3: "length xs = 3 \<Longrightarrow> \<exists>a b c. xs = [a, b, c]"
  by (auto simp: numeral_3_eq_3 length_Suc_conv)

lemma shape33:
  assumes "shape_ok 3 3 A"
  shows "\<exists>a b c d e f g h i. A = [[a, b, c], [d, e, f], [g, h, i]]"
proof -
  from assms obtain r1 r2 r3 where A: "A = [r1, r2, r3]"
    unfolding shape_ok_def using list3 by blast
  from assms A have "length r1 = 3" "length r2 = 3" "length r3 = 3"
    by (simp_all add: shape_ok_def)
  then obtain a b c d e f g h i where "r1 = [a, b, c]" "r2 = [d, e, f]" "r3 = [g, h, i]"
    using list3 by metis
  with A show ?thesis by blast
qed

lemma compose_Rt_33:
  "compose_Rt [[a, b, c], [d, e, f], [g, h, i]] [x, y, z] =
     Inr [[a, d, g, x], [b, e, h, y], [c, f, i, z], [0, 0, 0, 1]]"
  by (simp add: compose_Rt_def set_block33_def set_col3_def set_33_def zeros_def
      shape_ok_def numeral_3_eq_3 numeral_Bit0)

lemma det_affine:
  "det [[a, d, g, x], [b, e, h, y], [c, f, i, z], [0, 0, 0, 1]] =
     a * (e * i - f * h) - b * (d * i - f * g) + c * (d * h - e * g)"
  by (simp add: mat_eval algebra_simps)

lemma inv_affine:
  assumes "a * (e * i - f * h) - b * (d * i - f * g) + c * (d * h - e * g) = D" "D \<noteq> 0"
  shows "linalg_inv [[a, d, g, x], [b, e, h, y], [c, f, i, z], [0, 0, 0, 1]] =
     Inr [[(e*i - f*h)/D, (g*f - d*i)/D, (d*h - g*e)/D,
             - ((e*i - f*h)*x + (g*f - d*i)*y + (d*h - g*e)*z)/D],
          [(c*h - b*i)/D, (a*i - g*c)/D, (g*b - a*h)/D,
             - ((c*h - b*i)*x + (a*i - g*c)*y + (g*b - a*h)*z)/D],
          [(b*f - c*e)/D, (d*c - a*f)/D, (a*e - d*b)/D,
             - ((b*f - c*e)*x + (d*c - a*f)*y + (a*e - d*b)*z)/D],
          [0, 0, 0, 1]]"
  unfolding linalg_inv_def det_affine assms(1) using assms(2)
  apply (simp add: Let_def shape_ok_def upt_rec)
  apply (simp add: mat_eval algebra_simps assms(1)[symmetric] diff_divide_distrib
      add_divide_distrib)
  done

text \<open>For a matrix with orthonormal rows the cofactors are the entries times the
  determinant, and the determinant squares to 1.\<close>

lemma orth_cofactors:
  fixes a b c d e f g h i :: real
  assumes "a*a + b*b + c*c = 1" "d*d + e*e + f*f = 1" "g*g + h*h + i*i = 1"
    "a*d + b*e + c*f = 0" "a*g + b*h + c*i = 0" "d*g + e*h + f*i = 0"
  defines "D \<equiv> a * (e * i - f * h) - b * (d * i - f * g) + c * (d * h - e * g)"
  shows "D * D = 1"
    "e*i - f*h = D * a" "g*f - d*i = D * b" "d*h - g*e = D * c"
    "c*h - b*i = D * d" "a*i - g*c = D * e" "g*b - a*h = D * f"
    "b*f - c*e = D * g" "d*c - a*f = D * h" "a*e - d*b = D * i"
  unfolding D_def using assms(1-6) by algebra+

lemma inv_affine_orth:
  fixes a b c d e f g h i :: real
  assumes "a*a + b*b + c*c = 1" "d*d + e*e + f*f = 1" "g*g + h*h + i*i = 1"
    "a*d + b*e + c*f = 0" "a*g + b*h + c*i = 0" "d*g + e*h + f*i = 0"
  shows "linalg_inv [[a, d, g, x], [b, e, h, y], [c, f, i, z], [0, 0, 0, 1]] =
     Inr [[a, b, c, - (a*x + b*y + c*z)],
          [d, e, f, - (d*x + e*y + f*z)],
          [g, h, i, - (g*x + h*y + i*z)],
          [0, 0, 0, 1]]"
proof -
  define D where "D = a * (e * i - f * h) - b * (d * i - f * g) + c * (d * h - e * g)"
  note co = orth_cofactors[OF assms, folded D_def]
  from co(1) have nz: "D \<noteq> 0" by auto
  show ?thesis
    unfolding inv_affine[OF D_def[symmetric] nz] co(2-10) using nz
    by (simp add: algebra_simps flip: distrib_left)
qed

subsection \<open>The matrix composed by \<^verbatim>\<open>camera_to_JSON\<close>\<close>

text \<open>
  Claim C7, as stated: for every stored record with rotation \<open>R\<close> and translation
  \<open>T\<close>, the world-to-view matrix composed from it is \<open>[[R\<^sup>T, - R\<^sup>T T], [0, 1]]\<close>.
  At the quarter turn about the third axis with translation \<open>(1, 0, 0)\<close> the code
  composes \<open>Rt = [[R\<^sup>T, T], [0, 1]]\<close> and inverts it to \<open>[[R, - R T], [0, 1]]\<close>;
  neither is the matrix of the claim.
\<close>

theorem camera_to_JSON_matrix_counterexample:
  "compose_Rt [[0, - 1, 0], [1, 0, 0], [0, 0, 1]] [1, 0, 0]
     = Inr [[0, 1, 0, 1], [- 1, 0, 0, 0], [0, 0, 1, 0], [0, 0, 0, 1]]
   \<and> linalg_inv [[0, 1, 0, 1], [- 1, 0, 0, 0], [0, 0, 1, 0], [0, 0, 0, 1]]
     = Inr [[0, - 1, 0, 0], [1, 0, 0, - 1], [0, 0, 1, 0], [0, 0, 0, 1]]
   \<and> spec_worldToView [[0, - 1, 0], [1, 0, 0], [0, 0, 1]] [1, 0, 0]
     = [[0, 1, 0, 0], [- 1, 0, 0, 1], [0, 0, 1, 0], [0, 0, 0, 1]]
   \<and> compose_Rt [[0, - 1, 0], [1, 0, 0], [0, 0, 1]] [1, 0, 0]
     \<noteq> Inr (spec_worldToView [[0, - 1, 0], [1, 0, 0], [0, 0, 1]] [1, 0, 0])
   \<and> linalg_inv [[0, 1, 0, 1], [- 1, 0, 0, 0], [0, 0, 1, 0], [0, 0, 0, 1]]
     \<noteq> Inr (spec_worldToView [[0, - 1, 0], [1, 0, 0], [0, 0, 1]] [1, 0, 0])"
proof -
  have 1: "compose_Rt [[0, - 1, 0], [1, 0, 0], [0, 0, 1]] [1, 0, 0]
     = Inr [[0, 1, 0, 1], [- 1, 0, 0, 0], [0, 0, 1, 0], [0, 0, 0, 1]]"
    by (simp add: compose_Rt_33)
  have 2: "linalg_inv [[0, 1, 0, 1], [- 1, 0, 0, 0], [0, 0, 1, 0], [0, 0, 0, 1]]
     = Inr [[0, - 1, 0, 0], [1, 0, 0, - 1], [0, 0, 1, 0], [0, 0, 0, 1]]"
    by (simp add: linalg_inv_def Let_def mat_eval)
  have 3: "spec_worldToView [[0, - 1, 0], [1, 0, 0], [0, 0, 1]] [1, 0, 0]
     = [[0, 1, 0, 0], [- 1, 0, 0, 1], [0, 0, 1, 0], [0, 0, 0, 1]]"
    by (simp add: spec_worldToView_def matvec_def dot_def)
  show ?thesis unfolding 1 2 3 by simp
qed

text \<open>
  Claim C7, amended: for a record with a 3 by 3 rotation \<open>R\<close> and a 3-vector \<open>T\<close>,
  \<^verbatim>\<open>camera_to_JSON\<close> composes \<open>Rt = [[R\<^sup>T, T], [0, 1]]\<close>; when \<open>R\<close> is
  orthonormal, the inverse it takes of \<open>Rt\<close> is \<open>[[R, - R T], [0, 1]]\<close>.
\<close>

theorem camera_to_JSON_matrix:
  assumes "shape_ok 3 3 Rm" and "length tv = 3"
  shows "compose_Rt Rm tv = Inr (affine (transpose Rm) tv)
       \<and> (matmul Rm (transpose Rm) = eye 3 \<longrightarrow>
            linalg_inv (affine (transpose Rm) tv)
              = Inr (affine Rm (map uminus (matvec Rm tv))))"
proof -
  from shape33[OF assms(1)] obtain a b c d e f g h i
    where Rm: "Rm = [[a, b, c], [d, e, f], [g, h, i]]" by blast
  from list3[OF assms(2)] obtain x y z where tv: "tv = [x, y, z]" by blast
  have tr: "transpose Rm = [[a, d, g], [b, e, h], [c, f, i]]"
    unfolding Rm by (simp add: transpose.simps)
  have first: "compose_Rt Rm tv = Inr (affine (transpose Rm) tv)"
    unfolding tr unfolding Rm tv by (simp add: compose_Rt_33 affine_def)
  have second: "linalg_inv (affine (transpose Rm) tv)
              = Inr (affine Rm (map uminus (matvec Rm tv)))"
    if orth: "matmul Rm (transpose Rm) = eye 3"
  proof -
    from orth have eqs: "a*a + b*b + c*c = 1" "d*d + e*e + f*f = 1" "g*g + h*h + i*i = 1"
      "a*d + b*e + c*f = 0" "a*g + b*h + c*i = 0" "d*g + e*h + f*i = 0"
      unfolding tr unfolding Rm
      by (simp_all add: matmul_def eye_def dot_def transpose.simps upt_rec)
    show ?thesis
      unfolding tr unfolding Rm tv
      by (simp add: affine_def matvec_def dot_def inv_affine_orth[OF eqs])
  qed
  from first second show ?thesis by blast
qed

theorem camera_to_JSON_matrix_witness:
  "shape_ok 3 3 [[0, - 1, 0], [1, 0, 0], [0, 0, 1]] \<and> length [1, 0, 0 :: real] = 3
   \<and> matmul [[0, - 1, 0], [1, 0, 0], [0, 0, 1]] (transpose [[0, - 1, 0], [1, 0, 0], [0, 0, 1]])
       = eye 3
   \<and> compose_Rt [[0, - 1, 0], [1, 0, 0], [0, 0, 1]] [1, 0, 0]
       = Inr [[0, 1, 0, 1], [- 1, 0, 0, 0], [0, 0, 1, 0], [0, 0, 0, 1]]
   \<and> linalg_inv [[0, 1, 0, 1], [- 1, 0, 0, 0], [0, 0, 1, 0], [0, 0, 0, 1]]
       = Inr [[0, - 1, 0, 0], [1, 0, 0, - 1], [0, 0, 1, 0], [0, 0, 0, 1]]"
proof -
  have s: "shape_ok 3 3 [[0, - 1, 0], [1, 0, 0], [0, 0, 1 :: real]]"
    by (simp add: shape_ok_def)
  have l: "length [1, 0, 0 :: real] = 3" by simp
  have o: "matmul [[0, - 1, 0], [1, 0, 0], [0, 0, 1]]
      (transpose [[0, - 1, 0], [1, 0, 0], [0, 0, 1]]) = eye 3"
    by (simp add: matmul_def eye_def dot_def transpose.simps upt_rec)
  have t: "transpose [[0, - 1, 0], [1, 0, 0], [0, 0, 1 :: real]]
      = [[0, 1, 0], [- 1, 0, 0], [0, 0, 1]]"
    by (simp add: transpose.simps)
  from camera_to_JSON_matrix[OF s l] o s l show ?thesis
    unfolding t by (simp add: affine_def matvec_def dot_def)
qed

subsection \<open>The scene normalizer\<close>


lemma map_exn_Inr:
  "map_exn f xs = Inr ys \<Longrightarrow> list_all2 (\<lambda>x y. f x = Inr y) xs ys"
  by (induction xs arbitrary: ys) (auto split: sum.splits)

lemma getWorld2View2_shape:
  assumes "getWorld2View2 Rm tv tr s = Inr W"
  shows "\<exists>r0 r1 r2. W = [r0, r1, r2, [0, 0, 0, 1]] \<and> length r0 = 4 \<and> length r1 = 4 \<and> length r2 = 4"
proof -
  from assms have sh: "shape_ok 3 3 Rm" and l: "length tv = 3" "length tr = 3"
    by (auto simp: getWorld2View2_def split: if_splits)
  from shape33[OF sh] obtain a b c d e f g h i
    where Rm: "Rm = [[a, b, c], [d, e, f], [g, h, i]]" by blast
  from list3[OF l(1)] obtain x y z where tv: "tv = [x, y, z]" by blast
  from list3[OF l(2)] obtain x' y' z' where tr: "tr = [x', y', z']" by blast
  from assms show ?thesis
    unfolding Rm tv tr
    by (auto simp: getWorld2View2_def affine_def matvec_def transpose.simps shape_ok_def Let_def)
qed

lemma cam_center_shape:
  assumes "cam_center cam = Inr m"
  shows "\<exists>x y z. m = [[x], [y], [z]]"
proof -
  from assms obtain W C where W: "getWorld2View2 (R cam) (T cam) [0, 0, 0] 1 = Inr W"
    and C: "linalg_inv W = Inr C" and m: "m = col3_keep C"
    by (auto simp: cam_center_def split: sum.splits)
  from getWorld2View2_shape[OF W] obtain r0 r1 r2 where
    Wd: "W = [r0, r1, r2, [0, 0, 0, 1]]" by blast
  have "length W = 4" unfolding Wd by simp
  with C have "C = map (\<lambda>i. map (\<lambda>j. cofactor W j i / det W) [0..<4]) [0..<4]"
    unfolding linalg_inv_def Let_def by (auto split: if_splits)
  then show ?thesis unfolding m by (simp add: col3_keep_def upt_rec)
qed


lemma hstack_columns:
  assumes "ps \<noteq> []" "list_all (\<lambda>p. length p = 3) ps"
  shows "hstack (map column ps) = Inr [map (\<lambda>p. p ! 0) ps, map (\<lambda>p. p ! 1) ps, map (\<lambda>p. p ! 2) ps]"
  using assms
proof (induction ps rule: list_nonempty_induct)
  case (single p)
  then have "length p = 3" by simp
  from list3[OF this] obtain a b c where "p = [a, b, c]" by blast
  then show ?case by (simp add: column_def)
next
  case (cons p ps)
  then have "length p = 3" by simp
  from list3[OF this] obtain a b c where p: "p = [a, b, c]" by blast
  from cons obtain q qs where "ps = q # qs" by (cases ps) auto
  with cons p show ?case by (simp add: column_def)
qed

lemma transpose3:
  "transpose [map f ps, map g ps, map h ps] = map (\<lambda>p. [f p, g p, h p]) ps"
  by (induction ps) (simp_all add: transpose.simps)

lemma fold_max_Max: "fold max xs (x::real) = Max (set (x # xs))"
  by (rule Max.set_eq_fold[symmetric])

lemma get_center_and_diag_spec:
  assumes "ps \<noteq> []" "list_all (\<lambda>p. length p = 3) ps"
  shows "get_center_and_diag (map column ps)
     = Inr (spec_centroid ps, Max (spec_distance (spec_centroid ps) ` set ps))"
proof -
  from assms(1) obtain q qs where ps: "ps = q # qs" by (cases ps) auto
  have len: "length ps \<noteq> 0" using assms(1) by simp
  show ?thesis
    unfolding get_center_and_diag_def hstack_columns[OF assms]
    apply (simp add: mean_axis1_def sub_column_def Let_def norm_axis0_def transpose3 np_max_def)
    apply (simp add: ps spec_centroid_def spec_distance_def fold_max_Max)
    done
qed



lemma columns_of_centers:
  assumes "map_exn cam_center cam_info = Inr cs"
  shows "cs = map column (map concat cs) \<and> list_all (\<lambda>p. length p = 3) (map concat cs)"
proof -
  from map_exn_Inr[OF assms] have "list_all2 (\<lambda>x y. cam_center x = Inr y) cam_info cs" .
  then have "\<forall>m \<in> set cs. \<exists>x y z. m = [[x], [y], [z]]"
    by (induction rule: list_all2_induct) (auto dest: cam_center_shape)
  then show ?thesis
    by (induction cs) (auto simp: column_def)
qed

lemma map_exn_length: "map_exn f xs = Inr ys \<Longrightarrow> length ys = length xs"
  by (induction xs arbitrary: ys) (auto split: sum.splits)



lemma orth_eqs:
  assumes "matmul [[a, b, c], [d, e, f], [g, h, i]] (transpose [[a, b, c], [d, e, f], [g, h, i]]) = eye 3"
  shows "a*a + b*b + c*c = 1" "d*d + e*e + f*f = 1" "g*g + h*h + i*i = 1"
      "a*d + b*e + c*f = 0" "a*g + b*h + c*i = 0" "d*g + e*h + f*i = 0"
  using assms by (simp_all add: matmul_def eye_def dot_def transpose.simps upt_rec)

lemma orth_recover:
  fixes a b c d e f g h i :: real
  assumes "a*a + b*b + c*c = 1" "d*d + e*e + f*f = 1" "g*g + h*h + i*i = 1"
    "a*d + b*e + c*f = 0" "a*g + b*h + c*i = 0" "d*g + e*h + f*i = 0"
  shows "- (a * (- (a*x + d*y + g*z)) + b * (- (b*x + e*y + h*z)) + c * (- (c*x + f*y + i*z))) = x"
    "- (d * (- (a*x + d*y + g*z)) + e * (- (b*x + e*y + h*z)) + f * (- (c*x + f*y + i*z))) = y"
    "- (g * (- (a*x + d*y + g*z)) + h * (- (b*x + e*y + h*z)) + i * (- (c*x + f*y + i*z))) = z"
  using assms by algebra+

lemma cam_center_orthonormal:
  assumes sh: "shape_ok 3 3 (R cam)" and l: "length (T cam) = 3"
    and orth: "matmul (R cam) (transpose (R cam)) = eye 3"
  shows "cam_center cam = Inr (column (T cam))"
proof -
  from shape33[OF sh] obtain a b c d e f g h i
    where Rm: "R cam = [[a, b, c], [d, e, f], [g, h, i]]" by blast
  from list3[OF l] obtain x y z where tv: "T cam = [x, y, z]" by blast
  note eqs = orth_eqs[OF orth[unfolded Rm]]
  have W: "getWorld2View2 (R cam) (T cam) [0, 0, 0] 1 =
     Inr [[a, d, g, - (a*x + d*y + g*z)], [b, e, h, - (b*x + e*y + h*z)],
          [c, f, i, - (c*x + f*y + i*z)], [0, 0, 0, 1]]"
    unfolding Rm tv
    by (simp add: getWorld2View2_def shape_ok_def affine_def matvec_def dot_def transpose.simps)
  have C: "linalg_inv [[a, d, g, - (a*x + d*y + g*z)], [b, e, h, - (b*x + e*y + h*z)],
          [c, f, i, - (c*x + f*y + i*z)], [0, 0, 0, 1]] =
     Inr [[a, b, c, x], [d, e, f, y], [g, h, i, z], [0, 0, 0, 1]]"
    unfolding inv_affine_orth[OF eqs] orth_recover[OF eqs] ..
  show ?thesis
    apply (simp only: cam_center_def W sum.case)
    apply (simp only: C sum.case)
    apply (simp add: col3_keep_def tv column_def)
    done
qed

lemma example_centers:
  "cam_center example_cam_a = Inr [[- 1], [0], [0]]"
  "cam_center example_cam_b = Inr [[1], [0], [0]]"
  by (simp_all add: cam_center_orthonormal example_cam_a_def example_cam_b_def shape_ok_def
      matmul_def eye_def dot_def transpose.simps upt_rec column_def)

text \<open>
  Claim C4: for a non-empty list of records whose camera positions are recovered (each
  as the translation column of the inverted world-to-view matrix, \<open>cam_center\<close>),
  \<^verbatim>\<open>getNerfppNorm\<close> returns the negated centroid of the positions as
  \<open>translate\<close> and 1.1 times the largest Euclidean distance of a position from the
  centroid as \<open>radius\<close>; for a single camera at position \<open>p\<close> it returns
  \<open>translate = - p\<close> and \<open>radius = 0\<close>.
\<close>

theorem getNerfppNorm_centroid:
  assumes "cam_info \<noteq> []" and "map_exn cam_center cam_info = Inr cs"
  shows "getNerfppNorm cam_info =
           Inr \<lparr>translate = map uminus (spec_centroid (map concat cs)),
                radius = 1.1 * Max (spec_distance (spec_centroid (map concat cs)) ` set (map concat cs))\<rparr>
       \<and> (length cam_info = 1 \<longrightarrow>
            getNerfppNorm cam_info = Inr \<lparr>translate = map uminus (concat (hd cs)), radius = 0\<rparr>)"
proof -
  let ?ps = "map concat cs"
  from columns_of_centers[OF assms(2)]
  have cs: "cs = map column ?ps" and l3: "list_all (\<lambda>p. length p = 3) ?ps" by blast+
  from map_exn_length[OF assms(2)] assms(1) have ne: "?ps \<noteq> []" by auto
  have gc: "get_center_and_diag cs
     = Inr (spec_centroid ?ps, Max (spec_distance (spec_centroid ?ps) ` set ?ps))"
    using get_center_and_diag_spec[OF ne l3] cs by simp
  have main: "getNerfppNorm cam_info =
           Inr \<lparr>translate = map uminus (spec_centroid ?ps),
                radius = 1.1 * Max (spec_distance (spec_centroid ?ps) ` set ?ps)\<rparr>"
    unfolding getNerfppNorm_def assms(2) using gc by simp
  have single: "getNerfppNorm cam_info = Inr \<lparr>translate = map uminus (concat (hd cs)), radius = 0\<rparr>"
    if "length cam_info = 1"
  proof -
    from that map_exn_length[OF assms(2)] obtain m where m: "cs = [m]"
      by (cases cs) auto
    from l3 m have "length (concat m) = 3" by simp
    from list3[OF this] obtain x y z where p: "concat m = [x, y, z]" by blast
    show ?thesis unfolding main unfolding m
      by (simp add: p spec_centroid_def spec_distance_def)
  qed
  from main single show ?thesis by blast
qed

theorem getNerfppNorm_centroid_witness:
  "[example_cam_a, example_cam_b] \<noteq> []
   \<and> map_exn cam_center [example_cam_a, example_cam_b] = Inr [[[- 1], [0], [0]], [[1], [0], [0]]]
   \<and> getNerfppNorm [example_cam_a, example_cam_b] = Inr \<lparr>translate = [0, 0, 0], radius = 11 / 10\<rparr>
   \<and> length [example_cam_b] = 1
   \<and> map_exn cam_center [example_cam_b] = Inr [[[1], [0], [0]]]
   \<and> getNerfppNorm [example_cam_b] = Inr \<lparr>translate = [- 1, 0, 0], radius = 0\<rparr>"
proof -
  have 1: "map_exn cam_center [example_cam_a, example_cam_b] = Inr [[[- 1], [0], [0]], [[1], [0], [0]]]"
    by (simp add: example_centers)
  have 2: "map_exn cam_center [example_cam_b] = Inr [[[1], [0], [0]]]"
    by (simp add: example_centers)
  have n1: "[example_cam_a, example_cam_b] \<noteq> []" and n2: "[example_cam_b] \<noteq> []" by simp_all
  from getNerfppNorm_centroid[OF n1 1] getNerfppNorm_centroid[OF n2 2] 1 2
  show ?thesis
    by (simp add: spec_centroid_def spec_distance_def)
qed







subsection \<open>The warning of \<^verbatim>\<open>loadCam\<close>\<close>


lemma loadCam_resolution_listed:
  assumes "resolution args \<in> set [1, 2, 4, 8]"
  shows "loadCam_resolution s args rs ow oh =
     (case py_truediv (real ow) (rs * resolution args) of
        Inl e \<Rightarrow> (Inl e, s)
      | Inr qw \<Rightarrow>
          (case py_truediv (real oh) (rs * resolution args) of
             Inl e \<Rightarrow> (Inl e, s)
           | Inr qh \<Rightarrow> (Inr (py_round qw, py_round qh), s)))"
  using assms unfolding loadCam_resolution_def by (simp only: if_True)

lemma loadCam_resolution_other:
  assumes "resolution args \<notin> set [1, 2, 4, 8]"
  shows "loadCam_resolution s args rs ow oh =
     (case global_down_of args ow of
        Inl e \<Rightarrow> (Inl e, warned_after s args ow)
      | Inr global_down \<Rightarrow>
          (case py_truediv (real ow) (global_down * rs) of
             Inl e \<Rightarrow> (Inl e, warned_after s args ow)
           | Inr qw \<Rightarrow>
               (case py_truediv (real oh) (global_down * rs) of
                  Inl e \<Rightarrow> (Inl e, warned_after s args ow)
                | Inr qh \<Rightarrow> (Inr (py_int qw, py_int qh), warned_after s args ow))))"
proof -
  consider (warn) "resolution args = - 1" "ow > 1600" "\<not> WARNED s"
    | (warned) "resolution args = - 1" "ow > 1600" "WARNED s"
    | (small) "resolution args = - 1" "\<not> ow > 1600"
    | (explicit) "resolution args \<noteq> - 1"
    by blast
  then show ?thesis
  proof cases
    case warn
    then have wa: "warned_after s args ow = s\<lparr>stdout := stdout s @ [oversize_warning], WARNED := True\<rparr>"
      by (simp add: warned_after_def)
    show ?thesis unfolding wa using assms warn
      by (simp add: loadCam_resolution_def global_down_of_def)
  next
    case warned
    then have wa: "warned_after s args ow = s" by (simp add: warned_after_def)
    show ?thesis unfolding wa using assms warned
      by (simp add: loadCam_resolution_def global_down_of_def)
  next
    case small
    then have wa: "warned_after s args ow = s" by (simp add: warned_after_def)
    show ?thesis unfolding wa using assms small
      by (simp add: loadCam_resolution_def global_down_of_def)
  next
    case explicit
    then have wa: "warned_after s args ow = s" by (simp add: warned_after_def)
    show ?thesis unfolding wa using assms explicit
      by (simp add: loadCam_resolution_def global_down_of_def)
  qed
qed

lemma loadCam_resolution_result:
  "fst (loadCam_resolution s args rs ow oh) = fst (loadCam_resolution s' args rs ow oh)"
proof (cases "resolution args \<in> set [1, 2, 4, 8]")
  case True
  show ?thesis unfolding loadCam_resolution_listed[OF True]
    by (simp split: sum.splits)
next
  case False
  show ?thesis unfolding loadCam_resolution_other[OF False]
    by (simp split: sum.splits)
qed

lemma loadCam_resolution_state:
  "snd (loadCam_resolution s args rs ow oh) =
     (if \<not> WARNED s \<and> resolution args = - 1 \<and> ow > 1600
      then s\<lparr>stdout := stdout s @ [oversize_warning], WARNED := True\<rparr> else s)"
proof (cases "resolution args \<in> set [1, 2, 4, 8]")
  case True
  then have "resolution args \<noteq> - 1" by auto
  then show ?thesis unfolding loadCam_resolution_listed[OF True]
    by (simp split: sum.splits)
next
  case False
  show ?thesis unfolding loadCam_resolution_other[OF False]
    by (simp add: warned_after_def split: sum.splits)
qed

lemma loadCam_fst:
  "fst (loadCam s w args i c rs) =
     (case image_open w (image_path c) of
        Inl e \<Rightarrow> Inl e
      | Inr (ow, oh) \<Rightarrow>
          (case fst (loadCam_resolution s args rs ow oh) of
             Inl e \<Rightarrow> Inl e
           | Inr res \<Rightarrow>
               Inr \<lparr>c_colmap_id = uid c, c_R = R c, c_T = T c,
                c_FoVx = FovX c, c_FoVy = FovY c, c_resolution = res,
                c_image_path = image_path c,
                c_depth_cam_path = depth_cam_path c,
                c_depth_est_path = depth_est_path c,
                c_image_name = image_name c, c_uid = i,
                c_data_device = data_device args\<rparr>))"
  by (simp add: loadCam_def split: sum.splits prod.splits)

lemma loadCam_snd:
  "snd (loadCam s w args i c rs) =
     (case image_open w (image_path c) of
        Inl e \<Rightarrow> s
      | Inr (ow, oh) \<Rightarrow> snd (loadCam_resolution s args rs ow oh))"
  by (simp add: loadCam_def split: sum.splits prod.splits)

lemma loadCam_result:
  "fst (loadCam s w args i c rs) = fst (loadCam s' w args i c rs)"
  unfolding loadCam_fst loadCam_resolution_result[of s args rs _ _ s'] ..

lemma loadCam_state:
  "snd (loadCam s w args i c rs) =
     (if \<not> WARNED s \<and> resolution args = - 1
         \<and> (case image_open w (image_path c) of Inl e \<Rightarrow> False | Inr (ow, oh) \<Rightarrow> ow > 1600)
      then s\<lparr>stdout := stdout s @ [oversize_warning], WARNED := True\<rparr> else s)"
  unfolding loadCam_snd loadCam_resolution_state
  by (simp split: sum.splits prod.splits)

lemma loadCam_calls_invariant:
  "count_list (stdout s) oversize_warning \<le> (if WARNED s then 1 else 0) \<Longrightarrow>
   count_list (stdout (snd (loadCam_calls s calls))) oversize_warning
     \<le> (if WARNED (snd (loadCam_calls s calls)) then 1 else 0)"
proof (induction calls arbitrary: s)
  case Nil
  then show ?case by simp
next
  case (Cons c calls)
  let ?s1 = "snd (loadCam s (call_world c) (call_args c) (call_id c) (call_cam_info c)
             (call_resolution_scale c))"
  have inv1: "count_list (stdout ?s1) oversize_warning \<le> (if WARNED ?s1 then 1 else 0)"
    using Cons.prems unfolding loadCam_state by (simp split: if_splits)
  have "snd (loadCam_calls s (c # calls)) = snd (loadCam_calls ?s1 calls)"
    by (simp split: prod.splits)
  with Cons.IH[OF inv1] show ?case by simp
qed

text \<open>
  Claim C10: over every sequence of \<^verbatim>\<open>loadCam\<close> calls in a process that starts
  with the flag unset, the warning for oversized images is printed at most once; the
  object a call returns does not depend on the flag; and a call prints the warning
  exactly when the flag is unset, the resolution is -1 and the image opens with a
  width above 1600.
\<close>

theorem loadCam_warns_once:
  "count_list (stdout (snd (loadCam_calls module_init calls))) oversize_warning \<le> 1
   \<and> fst (loadCam s w args i c rs) = fst (loadCam s' w args i c rs)
   \<and> snd (loadCam s w args i c rs) =
       (if \<not> WARNED s \<and> resolution args = - 1
           \<and> (case image_open w (image_path c) of Inl e \<Rightarrow> False | Inr (ow, oh) \<Rightarrow> ow > 1600)
        then s\<lparr>stdout := stdout s @ [oversize_warning], WARNED := True\<rparr> else s)"
proof -
  have "count_list (stdout module_init) oversize_warning \<le> (if WARNED module_init then 1 else 0)"
    by (simp add: module_init_def)
  from loadCam_calls_invariant[OF this, of calls]
  have "count_list (stdout (snd (loadCam_calls module_init calls))) oversize_warning \<le> 1"
    by (simp split: if_splits)
  moreover note loadCam_result[of s w args i c rs s'] loadCam_state[of s w args i c rs]
  ultimately show ?thesis by (intro conjI)
qed



lemma loadCam_calls_snd:
  "snd (loadCam_calls s (c # cs)) =
     snd (loadCam_calls (snd (loadCam s (call_world c) (call_args c) (call_id c)
            (call_cam_info c) (call_resolution_scale c))) cs)"
  by (simp split: prod.splits)

theorem loadCam_warns_once_witness:
  "stdout (snd (loadCam_calls module_init [example_oversize_call, example_oversize_call]))
     = [oversize_warning]
   \<and> count_list (stdout (snd (loadCam_calls module_init
          [example_oversize_call, example_oversize_call]))) oversize_warning \<le> 1"
proof -
  have io: "image_open (call_world example_oversize_call)
      (image_path (call_cam_info example_oversize_call)) = Inr (3200, 1600)"
    by (simp add: example_oversize_call_def image_open_def example_cam_a_def)
  have r: "resolution (call_args example_oversize_call) = - 1"
    by (simp add: example_oversize_call_def)
  have "stdout (snd (loadCam_calls module_init [example_oversize_call, example_oversize_call]))
     = [oversize_warning]"
    unfolding loadCam_calls_snd
    by (simp add: loadCam_state io r module_init_def)
  with loadCam_warns_once[of "[example_oversize_call, example_oversize_call]"]
  show ?thesis by simp
qed

subsection \<open>The example scene\<close>

lemma example_exists:
  "os_path_exists example_world p =
     (p \<in> {''/scene/images'', ''/scene/images/a.png'', ''/scene/images/b.png'',
           ''/scene/split.yml'', ''/scene/split_overlap.yml'', ''/scene/sparse/points3D.ply'',
           ''/scene/points3d.ply'', ''/scene/transforms_full.json'',
           ''/scene/transforms_train.json'', ''/scene/transforms_test.json''})"
  by (simp add: os_path_exists_def example_world_def example_fs_def)

lemma example_store:
  "read_colmap_store example_collaborators ''/scene''
     = Inr (example_images, [1 \<mapsto> example_camera])"
  by (simp add: read_colmap_store_def example_collaborators_def path_join_def)

lemma example_cameras:
  "readColmapCameras example_collaborators example_world example_images [1 \<mapsto> example_camera]
     ''/scene/images'' None None = Inr [example_cam_b, example_cam_a]"
  by (simp add: readColmapCameras_def example_images_def colmap_entry_def example_camera_def
      colmap_fov_def py_index_def focal2fov_def colmap_image_path_def path_join_def basename_def
      example_exists png_variant_def py_rsplit1_def Let_def example_collaborators_def
      example_qvec2rotmat_def transpose.simps example_cam_a_def example_cam_b_def)

lemma example_sorted:
  "sort_key image_name [example_cam_b, example_cam_a] = [example_cam_a, example_cam_b]"
  by (simp add: example_cam_a_def example_cam_b_def)

lemma example_fetch:
  "fetchPly example_world ''/scene/sparse/points3D.ply''
     = Inr \<lparr>points = [[1, 2, 3]], colors = [[1, 0, 1 / 5]], normals = None\<rparr>"
  by (simp add: fetchPly_def example_world_def example_fs_def example_vertex_def)


subsection \<open>Unsupported camera models\<close>


lemma map_exn_Inl:
  "x \<in> set xs \<Longrightarrow> f x = Inl e \<Longrightarrow> \<exists>e'. map_exn f xs = Inl e'"
  by (induction xs) (auto split: sum.splits)

lemma colmap_fov_unsupported:
  "model intr \<noteq> ''SIMPLE_PINHOLE'' \<Longrightarrow> model intr \<noteq> ''PINHOLE''
     \<Longrightarrow> colmap_fov intr = Inl AssertionError"
  by (simp add: colmap_fov_def)

lemma colmap_entry_unsupported:
  assumes "cam_intrinsics (camera_id extr) = Some intr"
    and "model intr \<noteq> ''SIMPLE_PINHOLE''" and "model intr \<noteq> ''PINHOLE''"
  shows "colmap_entry cs w cam_intrinsics folder dc de extr = Inl AssertionError"
  using assms by (simp add: colmap_entry_def colmap_fov_unsupported)

text \<open>
  Claim C6: when the store of a reconstruction holds a view whose camera has a model
  other than \<open>SIMPLE_PINHOLE\<close> and \<open>PINHOLE\<close>, \<^verbatim>\<open>readColmapCameras\<close> raises
  and returns no list of records, and the scene load built on that store raises too,
  leaving the files as they were; the view is never skipped.
\<close>

theorem unsupported_model_aborts:
  assumes "(k, extr) \<in> set cam_extrinsics"
    and "cam_intrinsics (camera_id extr) = Some intr"
    and "model intr \<noteq> ''SIMPLE_PINHOLE''" and "model intr \<noteq> ''PINHOLE''"
  shows "(\<exists>e. readColmapCameras cs w cam_extrinsics cam_intrinsics folder dc de = Inl e)
       \<and> (read_colmap_store cs path = Inr (cam_extrinsics, cam_intrinsics) \<longrightarrow>
            (\<exists>e. readColmapSceneInfo cs w path images eval split_yml_name = (Inl e, w)))"
proof -
  from assms(1) have mem: "extr \<in> set (map snd cam_extrinsics)" by force
  have cams: "\<exists>e. readColmapCameras cs w cam_extrinsics cam_intrinsics folder dc de = Inl e"
    for folder dc de
    unfolding readColmapCameras_def
    using map_exn_Inl[of extr "map snd cam_extrinsics"
        "colmap_entry cs w cam_intrinsics folder dc de" AssertionError] mem
      colmap_entry_unsupported[of cam_intrinsics extr intr cs w folder dc de] assms(2-4)
    by blast
  have "\<exists>e. readColmapSceneInfo cs w path images eval split_yml_name = (Inl e, w)"
    if st: "read_colmap_store cs path = Inr (cam_extrinsics, cam_intrinsics)"
  proof -
    from cams obtain e where
      "readColmapCameras cs w cam_extrinsics cam_intrinsics
         (path_join path (case images of None \<Rightarrow> ''images'' | Some d \<Rightarrow> d))
         (if os_path_exists w (path_join path ''depths_cam'')
          then Some (path_join path ''depths_cam'') else None)
         (if os_path_exists w (path_join path ''depths_est'')
          then Some (path_join path ''depths_est'') else None) = Inl e" by blast
    then show ?thesis
      unfolding readColmapSceneInfo_def st by (simp add: Let_def)
  qed
  with cams show ?thesis by blast
qed

theorem unsupported_model_aborts_witness:
  "(2, \<lparr>qvec = [1, 0, 0, 0], tvec = [- 1, 0, 0], camera_id = 1, name = ''a.png''\<rparr>)
      \<in> set example_images
   \<and> [1 \<mapsto> example_camera\<lparr>model := ''OPENCV''\<rparr>] 1 = Some (example_camera\<lparr>model := ''OPENCV''\<rparr>)
   \<and> model (example_camera\<lparr>model := ''OPENCV''\<rparr>) \<noteq> ''SIMPLE_PINHOLE''
   \<and> model (example_camera\<lparr>model := ''OPENCV''\<rparr>) \<noteq> ''PINHOLE''
   \<and> read_colmap_store example_opencv ''/scene''
        = Inr (example_images, [1 \<mapsto> example_camera\<lparr>model := ''OPENCV''\<rparr>])
   \<and> (\<exists>e. readColmapCameras example_opencv example_world example_images
              [1 \<mapsto> example_camera\<lparr>model := ''OPENCV''\<rparr>] ''/scene/images'' None None = Inl e)
   \<and> (\<exists>e. readColmapSceneInfo example_opencv example_world ''/scene'' None False None
              = (Inl e, example_world))"
proof -
  let ?extr = "\<lparr>qvec = [1, 0, 0, 0], tvec = [- 1, 0, 0], camera_id = 1, name = ''a.png''\<rparr>"
  let ?intr = "example_camera\<lparr>model := ''OPENCV''\<rparr>"
  have m: "(2, ?extr) \<in> set example_images" by (simp add: example_images_def)
  have i: "[1 \<mapsto> ?intr] (camera_id ?extr) = Some ?intr" by simp
  have n1: "model ?intr \<noteq> ''SIMPLE_PINHOLE''" and n2: "model ?intr \<noteq> ''PINHOLE''" by simp_all
  have st: "read_colmap_store example_opencv ''/scene'' = Inr (example_images, [1 \<mapsto> ?intr])"
    by (simp add: read_colmap_store_def example_opencv_def example_collaborators_def path_join_def)
  from unsupported_model_aborts[where k = 2 and extr = ?extr and cam_extrinsics = example_images
      and cam_intrinsics = "[1 \<mapsto> ?intr]" and intr = ?intr and cs = example_opencv
      and w = example_world and folder = "''/scene/images''" and dc = None and de = None
      and path = "''/scene''" and images = None and eval = False and split_yml_name = None]
    m i n1 n2 st
  show ?thesis by simp
qed


subsection \<open>The partition into train and test cameras\<close>


lemma split_cameras_eval:
  assumes "fs w (path_join path yml) = Some (SplitYaml train_list test_list)"
  shows "split_cameras w path True (Some yml) cam_infos =
     Inr (filter (\<lambda>c. image_name c \<in> set train_list) cam_infos,
          filter (\<lambda>c. image_name c \<in> set test_list) cam_infos)"
  using assms by (simp add: split_cameras_def os_path_exists_def Let_def)

lemma split_cameras_no_eval:
  "split_cameras w path False yml cam_infos = Inr (cam_infos, [])"
  by (simp add: split_cameras_def)

lemma example_split_overlap:
  "fs example_world (path_join ''/scene'' ''split_overlap.yml'')
     = Some (SplitYaml [''a'', ''b''] [''a''])"
  by (simp add: example_world_def example_fs_def path_join_def)

lemma example_split:
  "fs example_world (path_join ''/scene'' ''split.yml'') = Some (SplitYaml [''a''] [''b''])"
  by (simp add: example_world_def example_fs_def path_join_def)

text \<open>
  Claim C5, as stated: whenever a split is supplied and every listed name matches an
  existing camera, the train and test cameras together are as many as the loaded
  cameras and share no \<open>image_name\<close>. With the cameras \<open>a\<close> and \<open>b\<close> and the
  split \<open>train: [a, b], test: [a]\<close> every listed name matches a camera, yet the
  partition has three cameras for two loaded ones and \<open>a\<close> is on both sides.
\<close>

theorem split_partition_counterexample:
  "split_cameras example_world ''/scene'' True (Some ''split_overlap.yml'')
       [example_cam_a, example_cam_b]
     = Inr ([example_cam_a, example_cam_b], [example_cam_a])
   \<and> fs example_world (path_join ''/scene'' ''split_overlap.yml'')
     = Some (SplitYaml [''a'', ''b''] [''a''])
   \<and> set [''a'', ''b''] \<union> set [''a''] \<subseteq> image_name ` set [example_cam_a, example_cam_b]
   \<and> length [example_cam_a, example_cam_b] + length [example_cam_a]
       \<noteq> length [example_cam_a, example_cam_b]
   \<and> image_name example_cam_a
       \<in> image_name ` set [example_cam_a, example_cam_b] \<inter> image_name ` set [example_cam_a]"
  unfolding split_cameras_eval[OF example_split_overlap] example_split_overlap
  by (simp add: example_cam_a_def example_cam_b_def)

text \<open>
  Claim C5, amended: whenever a split is supplied whose \<open>train\<close> and \<open>test\<close> lists
  share no name and together name every loaded camera, the partition of lines 189 to
  199 (and 390 to 400) yields train and test cameras that together are as many as the
  loaded cameras and share no \<open>image_name\<close>.
\<close>

theorem split_partition:
  assumes "split_cameras w path True (Some yml) cam_infos = Inr (train, test)"
    and "fs w (path_join path yml) = Some (SplitYaml train_list test_list)"
    and "set train_list \<inter> set test_list = {}"
    and "image_name ` set cam_infos \<subseteq> set train_list \<union> set test_list"
  shows "length train + length test = length cam_infos
       \<and> image_name ` set train \<inter> image_name ` set test = {}"
proof -
  from assms(1) have tr: "train = filter (\<lambda>c. image_name c \<in> set train_list) cam_infos"
    and te: "test = filter (\<lambda>c. image_name c \<in> set test_list) cam_infos"
    unfolding split_cameras_eval[OF assms(2)] by simp_all
  have "filter (\<lambda>c. image_name c \<in> set test_list) cam_infos
      = filter (\<lambda>c. \<not> image_name c \<in> set train_list) cam_infos"
    using assms(3,4) by (intro filter_cong) auto
  then have len: "length train + length test = length cam_infos"
    unfolding tr te by (simp add: sum_length_filter_compl)
  have "image_name ` set train \<subseteq> set train_list" "image_name ` set test \<subseteq> set test_list"
    unfolding tr te by auto
  with assms(3) have "image_name ` set train \<inter> image_name ` set test = {}" by blast
  with len show ?thesis by simp
qed

theorem split_partition_witness:
  "split_cameras example_world ''/scene'' True (Some ''split.yml'')
       [example_cam_a, example_cam_b] = Inr ([example_cam_a], [example_cam_b])
   \<and> fs example_world (path_join ''/scene'' ''split.yml'') = Some (SplitYaml [''a''] [''b''])
   \<and> set [''a''] \<inter> set [''b''] = {}
   \<and> image_name ` set [example_cam_a, example_cam_b] \<subseteq> set [''a''] \<union> set [''b'']
   \<and> length [example_cam_a] + length [example_cam_b] = length [example_cam_a, example_cam_b]
   \<and> image_name ` set [example_cam_a] \<inter> image_name ` set [example_cam_b] = {}"
proof -
  have s: "split_cameras example_world ''/scene'' True (Some ''split.yml'')
       [example_cam_a, example_cam_b] = Inr ([example_cam_a], [example_cam_b])"
    unfolding split_cameras_eval[OF example_split]
    by (simp add: example_cam_a_def example_cam_b_def)
  have d: "set [''a''] \<inter> set [''b''] = {}" by simp
  have c: "image_name ` set [example_cam_a, example_cam_b] \<subseteq> set [''a''] \<union> set [''b'']"
    by (simp add: example_cam_a_def example_cam_b_def)
  from split_partition[OF s example_split d c] s example_split d c show ?thesis by blast
qed



subsection \<open>The loader of synthetic-renderer scenes\<close>


lemma three_positionals_raise:
  "readCamerasFromTransforms w [a1, a2, a3] [(''isOpenGL'', v1), (''extension'', v2)]
     = Inl TypeError"
  by (simp add: readCamerasFromTransforms_def bind_args_def readCamerasFromTransforms_params_def)

lemma readNerfSyntheticInfo_raises:
  "readNerfSyntheticInfo cs w path white_background eval extension = (Inl TypeError, w)"
  by (simp add: readNerfSyntheticInfo_def three_positionals_raise)

text \<open>
  Claim C2: every load of a synthetic-renderer scene with a valid manifest produces
  records with \<open>fovX\<close> the manifest's \<open>camera_angle_x\<close>; for \<open>camera_angle_x =
  0.6911\<close>, one frame with the identity matrix and an 800 by 800 image, the loader
  produces a record with \<open>fovX = fovY = 0.6911\<close>. On that input
  \<^verbatim>\<open>readNerfSyntheticInfo\<close> raises \<open>TypeError\<close> at its first call of the adapter
  and produces no record: the call leaves the parameter \<open>white_background\<close> unbound.
\<close>

theorem readNerfSyntheticInfo_failing_input:
  "fs example_world ''/scene/transforms_train.json''
     = Some (Manifest 0.6911
         [\<lparr>file_path = ''./images/a'',
           transform_matrix = [[1, 0, 0, 0], [0, 1, 0, 0], [0, 0, 1, 0], [0, 0, 0, 1]]\<rparr>])
   \<and> fs example_world ''/scene/images/a.png'' = Some (ImageFile 800 800)
   \<and> readNerfSyntheticInfo example_collaborators example_world ''/scene'' False False ''.png''
     = (Inl TypeError, example_world)"
  by (simp add: readNerfSyntheticInfo_raises example_world_def example_fs_def)

lemma fov_roundtrip:
  assumes "0 < f" "f < pi" "0 < w"
  shows "fov2focal f w = Inr (w / (2 * tan (f / 2)))"
    and "focal2fov (w / (2 * tan (f / 2))) w = Inr f"
proof -
  from assms have t: "0 < tan (f / 2)" by (intro tan_gt_zero) auto
  then show "fov2focal f w = Inr (w / (2 * tan (f / 2)))" by (simp add: fov2focal_def)
  from assms have "arctan (tan (f / 2)) = f / 2" by (intro arctan_tan) auto
  moreover from t assms(3) have "w / (2 * (w / (2 * tan (f / 2)))) = tan (f / 2)" by simp
  ultimately show "focal2fov (w / (2 * tan (f / 2))) w = Inr f"
    using t assms(3) by (simp add: focal2fov_def)
qed



subsection \<open>The manifest adapter on the example\<close>


lemma inv_translation:
  "linalg_inv [[1, 0, 0, x], [0, 1, 0, y], [0, 0, 1, z], [0, 0, 0, 1]]
     = Inr [[1, 0, 0, - x], [0, 1, 0, - y], [0, 0, 1, - z], [0, 0, 0, 1]]"
  using inv_affine_orth[of 1 0 0 0 1 0 0 0 1 x y z] by simp

lemma transforms_frame_eval:
  assumes "transforms_cam_name w images_dir extension (file_path fr) = Inr cn"
    and "transforms_w2c isOpenGL (transform_matrix fr) = Inr w2c"
    and "col3 w2c = Inr tv"
    and "image_open w (path_join path cn) = Inr (iw, ih)"
    and "fov2focal fovx (real iw) = Inr focal"
    and "focal2fov focal (real ih) = Inr fovy"
    and "depth_path dcf (path_stem cn) = Inr dc"
    and "depth_path def (path_stem cn) = Inr de"
  shows "transforms_frame w path images_dir dcf def isOpenGL extension fovx (idx, fr) =
     Inr \<lparr>uid = int idx, R = transpose (block33 w2c), T = tv, FovY = fovy, FovX = fovx,
          depth_cam_path = dc, depth_est_path = de,
          image_path = path_join path cn, image_name = path_stem cn,
          width = iw, height = ih\<rparr>"
  by (simp add: transforms_frame_def assms)

lemma example_image_open:
  "image_open example_world (path_join ''/scene'' ''/scene/images/a.png'') = Inr (800, 800)"
  "image_open example_world (path_join ''/scene'' ''/scene/images/b.png'') = Inr (800, 800)"
  by (simp_all add: image_open_def example_world_def example_fs_def path_join_def)

lemma example_cam_names:
  "transforms_cam_name example_world (PStr ''/scene/images'') (PStr ''.png'') ''./images/a''
     = Inr ''/scene/images/a.png''"
  "transforms_cam_name example_world (PStr ''/scene/images'') (PStr ''.png'') ''./images/b''
     = Inr ''/scene/images/b.png''"
  by (simp_all add: transforms_cam_name_def py_index_def py_rsplit1_def as_str_def
      path_join_def example_exists Let_def)

lemma example_fov800:
  "fov2focal 0.6911 (real 800) = Inr (real 800 / (2 * tan (0.6911 / 2)))"
  "focal2fov (real 800 / (2 * tan (0.6911 / 2))) (real 800) = Inr 0.6911"
proof -
  have p: "(0::real) < 0.6911" "(0.6911::real) < pi" "0 < real 800"
    using pi_ge_two by simp_all
  show "fov2focal 0.6911 (real 800) = Inr (real 800 / (2 * tan (0.6911 / 2)))"
    by (rule fov_roundtrip(1)[OF p])
  show "focal2fov (real 800 / (2 * tan (0.6911 / 2))) (real 800) = Inr 0.6911"
    by (rule fov_roundtrip(2)[OF p])
qed

lemma example_frame_a_eval:
  "transforms_frame example_world ''/scene'' (PStr ''/scene/images'') PNone PNone (PBool False)
     (PStr ''.png'') 0.6911
     (0, \<lparr>file_path = ''./images/a'',
          transform_matrix = [[1, 0, 0, 1], [0, 1, 0, 0], [0, 0, 1, 0], [0, 0, 0, 1]]\<rparr>)
   = Inr example_frame_a"
proof -
  let ?fr = "\<lparr>file_path = ''./images/a'',
          transform_matrix = [[1, 0, 0, 1], [0, 1, 0, 0], [0, 0, 1, 0], [0, 0, 0, 1]]\<rparr>"
  have 1: "transforms_cam_name example_world (PStr ''/scene/images'') (PStr ''.png'')
      (file_path ?fr) = Inr ''/scene/images/a.png''"
    by (simp add: example_cam_names)
  have 2: "transforms_w2c (PBool False) (transform_matrix ?fr)
      = Inr [[1, 0, 0, - 1], [0, 1, 0, 0], [0, 0, 1, 0], [0, 0, 0, 1]]"
    using inv_translation[of 1 0 0] by (simp add: transforms_w2c_def truthy_def)
  have 3: "col3 [[1, 0, 0, - 1], [0, 1, 0, 0], [0, 0, 1, 0], [0, 0, 0, 1]] = Inr [- 1, 0, 0]"
    by (simp add: col3_def)
  have 4: "depth_path PNone (path_stem ''/scene/images/a.png'') = Inr None"
    by (simp add: depth_path_def)
  show ?thesis
    unfolding transforms_frame_eval[OF 1 2 3 example_image_open(1) example_fov800 4 4]
    by (simp add: block33_def transpose.simps path_join_def path_stem_def basename_def
        example_frame_a_def)
qed

lemma example_frame_b_eval:
  "transforms_frame example_world ''/scene'' (PStr ''/scene/images'') PNone PNone (PBool False)
     (PStr ''.png'') 0.6911
     (1, \<lparr>file_path = ''./images/b'',
          transform_matrix = [[1, 0, 0, - 1], [0, 1, 0, 0], [0, 0, 1, 0], [0, 0, 0, 1]]\<rparr>)
   = Inr example_frame_b"
proof -
  let ?fr = "\<lparr>file_path = ''./images/b'',
          transform_matrix = [[1, 0, 0, - 1], [0, 1, 0, 0], [0, 0, 1, 0], [0, 0, 0, 1]]\<rparr>"
  have 1: "transforms_cam_name example_world (PStr ''/scene/images'') (PStr ''.png'')
      (file_path ?fr) = Inr ''/scene/images/b.png''"
    by (simp add: example_cam_names)
  have 2: "transforms_w2c (PBool False) (transform_matrix ?fr)
      = Inr [[1, 0, 0, 1], [0, 1, 0, 0], [0, 0, 1, 0], [0, 0, 0, 1]]"
    using inv_translation[of "- 1" 0 0] by (simp add: transforms_w2c_def truthy_def)
  have 3: "col3 [[1, 0, 0, 1], [0, 1, 0, 0], [0, 0, 1, 0], [0, 0, 0, 1]] = Inr [1, 0, 0]"
    by (simp add: col3_def)
  have 4: "depth_path PNone (path_stem ''/scene/images/b.png'') = Inr None"
    by (simp add: depth_path_def)
  show ?thesis
    unfolding transforms_frame_eval[OF 1 2 3 example_image_open(2) example_fov800 4 4]
    by (simp add: block33_def transpose.simps path_join_def path_stem_def basename_def
        example_frame_b_def)
qed

lemma example_manifest:
  "readCamerasFromTransforms example_world
     [PStr ''/scene'', PStr ''/scene/images'', PStr ''transforms_full.json'', PBool wb]
     [(''depth_cam_folder'', PNone), (''depth_est_folder'', PNone), (''extension'', PStr ''.png'')]
   = Inr [example_frame_a, example_frame_b]"
proof -
  have fsm: "fs example_world ''/scene/transforms_full.json'' =
     Some (Manifest 0.6911
           [\<lparr>file_path = ''./images/a'',
              transform_matrix = [[1, 0, 0, 1], [0, 1, 0, 0], [0, 0, 1, 0], [0, 0, 0, 1]]\<rparr>,
            \<lparr>file_path = ''./images/b'',
              transform_matrix = [[1, 0, 0, - 1], [0, 1, 0, 0], [0, 0, 1, 0], [0, 0, 0, 1]]\<rparr>])"
    by (simp add: example_world_def example_fs_def)
  have z: "zip [0..<2] [x, y] = [(0, x), (1, y)]" for x y :: frame
    by (simp add: upt_rec)
  show ?thesis
    using example_frame_a_eval example_frame_b_eval
    by (simp add: readCamerasFromTransforms_def bind_args_def
        readCamerasFromTransforms_params_def readCamerasFromTransforms_body_def as_str_def
        path_join_def fsm z)
qed


subsection \<open>The loads and their point-cloud cache\<close>


lemma colmap_point_cloud_cached:
  "os_path_exists w (path_join path ''sparse/points3D.ply'') \<Longrightarrow>
   colmap_point_cloud cs w path = (fetchPly w (path_join path ''sparse/points3D.ply''), w)"
  by (simp add: colmap_point_cloud_def Let_def)

lemma random_point_cloud_cached:
  "os_path_exists w ply \<Longrightarrow> random_point_cloud cs w ply n place = (fetchPly w ply, w)"
  by (simp add: random_point_cloud_def)

text \<open>What a successful load of a reconstruction has gone through.\<close>

lemma readColmapSceneInfo_Inr:
  assumes "readColmapSceneInfo cs w path images eval yml = (Inr scene, w')"
  shows "\<exists>ce ci unsorted.
      read_colmap_store cs path = Inr (ce, ci)
    \<and> readColmapCameras cs w ce ci
          (path_join path (case images of None \<Rightarrow> ''images'' | Some d \<Rightarrow> d))
          (if os_path_exists w (path_join path ''depths_cam'')
           then Some (path_join path ''depths_cam'') else None)
          (if os_path_exists w (path_join path ''depths_est'')
           then Some (path_join path ''depths_est'') else None) = Inr unsorted
    \<and> split_cameras w path eval yml (sort_key image_name unsorted)
          = Inr (train_cameras scene, test_cameras scene)
    \<and> getNerfppNorm (train_cameras scene) = Inr (nerf_normalization scene)
    \<and> colmap_point_cloud cs w path = (Inr (point_cloud scene), w')"
proof (cases "read_colmap_store cs path")
  case (Inl e)
  with assms show ?thesis by (simp add: readColmapSceneInfo_def)
next
  case (Inr st)
  obtain ce ci where st: "st = (ce, ci)" by (cases st)
  let ?cams = "readColmapCameras cs w ce ci
          (path_join path (case images of None \<Rightarrow> ''images'' | Some d \<Rightarrow> d))
          (if os_path_exists w (path_join path ''depths_cam'')
           then Some (path_join path ''depths_cam'') else None)
          (if os_path_exists w (path_join path ''depths_est'')
           then Some (path_join path ''depths_est'') else None)"
  show ?thesis
  proof (cases ?cams)
    case (Inl e)
    with assms Inr st show ?thesis by (simp add: readColmapSceneInfo_def Let_def)
  next
    case cams: (Inr unsorted)
    show ?thesis
    proof (cases "split_cameras w path eval yml (sort_key image_name unsorted)")
      case (Inl e)
      with assms Inr st cams show ?thesis by (simp add: readColmapSceneInfo_def Let_def)
    next
      case sp: (Inr tt)
      obtain tr te where tt: "tt = (tr, te)" by (cases tt)
      show ?thesis
      proof (cases "getNerfppNorm tr")
        case (Inl e)
        with assms Inr st cams sp tt show ?thesis
          by (simp add: readColmapSceneInfo_def Let_def)
      next
        case nn: (Inr n)
        obtain r w1 where pc: "colmap_point_cloud cs w path = (r, w1)"
          by (cases "colmap_point_cloud cs w path")
        show ?thesis
        proof (cases r)
          case (Inl e)
          with assms Inr st cams sp tt nn pc show ?thesis
            by (simp add: readColmapSceneInfo_def Let_def)
        next
          case (Inr pcd)
          with assms \<open>read_colmap_store cs path = Inr st\<close> st cams sp tt nn pc
          have "scene = \<lparr>point_cloud = pcd, train_cameras = tr, test_cameras = te,
                nerf_normalization = n,
                ply_path = path_join path ''sparse/points3D.ply''\<rparr>" and "w' = w1"
            by (simp_all add: readColmapSceneInfo_def Let_def)
          with \<open>read_colmap_store cs path = Inr st\<close> st cams sp tt nn pc Inr
          show ?thesis by simp
        qed
      qed
    qed
  qed
qed


lemma readColmapSceneInfo_world:
  "snd (readColmapSceneInfo cs w path images eval yml) = w
   \<or> snd (readColmapSceneInfo cs w path images eval yml) = snd (colmap_point_cloud cs w path)"
proof (cases "read_colmap_store cs path")
  case (Inl e)
  then show ?thesis by (simp add: readColmapSceneInfo_def)
next
  case (Inr st)
  obtain ce ci where st: "st = (ce, ci)" by (cases st)
  let ?cams = "readColmapCameras cs w ce ci
          (path_join path (case images of None \<Rightarrow> ''images'' | Some d \<Rightarrow> d))
          (if os_path_exists w (path_join path ''depths_cam'')
           then Some (path_join path ''depths_cam'') else None)
          (if os_path_exists w (path_join path ''depths_est'')
           then Some (path_join path ''depths_est'') else None)"
  show ?thesis
  proof (cases ?cams)
    case (Inl e)
    with Inr st show ?thesis by (simp add: readColmapSceneInfo_def Let_def)
  next
    case cams: (Inr unsorted)
    show ?thesis
    proof (cases "split_cameras w path eval yml (sort_key image_name unsorted)")
      case (Inl e)
      with Inr st cams show ?thesis by (simp add: readColmapSceneInfo_def Let_def)
    next
      case sp: (Inr tt)
      obtain tr te where tt: "tt = (tr, te)" by (cases tt)
      show ?thesis
      proof (cases "getNerfppNorm tr")
        case (Inl e)
        with Inr st cams sp tt show ?thesis
          by (simp add: readColmapSceneInfo_def Let_def)
      next
        case nn: (Inr n)
        obtain r w1 where pc: "colmap_point_cloud cs w path = (r, w1)"
          by (cases "colmap_point_cloud cs w path")
        from \<open>read_colmap_store cs path = Inr st\<close> st cams sp tt nn pc
        show ?thesis
          by (cases r) (simp_all add: readColmapSceneInfo_def Let_def)
      qed
    qed
  qed
qed

text \<open>What a successful load of a free-capture scene has gone through, and the state
  any such load leaves.\<close>

lemma readToyDeskSceneInfo_Inr:
  assumes "readToyDeskSceneInfo cs w path images wb eval ext yml = (Inr scene, w')"
  shows "\<exists>cam_infos.
      getNerfppNorm cam_infos = Inr (nerf_normalization scene)
    \<and> random_point_cloud cs w (path_join path ''points3d.ply'') 360000
          (toydesk_place cam_infos) = (Inr (point_cloud scene), w')
    \<and> split_cameras w' path eval yml cam_infos
          = Inr (train_cameras scene, test_cameras scene)"
proof -
  let ?call = "readCamerasFromTransforms w
             [PStr path, PStr (path_join path (case images of None \<Rightarrow> ''images'' | Some d \<Rightarrow> d)),
              PStr ''transforms_full.json'', PBool wb]
             [(''depth_cam_folder'',
                 if os_path_exists w (path_join path ''depths'')
                 then PStr (path_join path ''depths'') else PNone),
              (''depth_est_folder'',
                 if os_path_exists w (path_join path ''depths_est'')
                 then PStr (path_join path ''depths_est'') else PNone),
              (''extension'', PStr ext)]"
  show ?thesis
  proof (cases ?call)
    case (Inl e)
    with assms show ?thesis by (simp add: readToyDeskSceneInfo_def Let_def)
  next
    case cams: (Inr cam_infos)
    show ?thesis
    proof (cases "getNerfppNorm cam_infos")
      case (Inl e)
      with assms cams show ?thesis by (simp add: readToyDeskSceneInfo_def Let_def)
    next
      case nn: (Inr n)
      show ?thesis
      proof (cases "cam_infos = []")
        case True
        with assms cams nn show ?thesis by (simp add: readToyDeskSceneInfo_def Let_def)
      next
        case ne: False
        obtain r w1 where pc: "random_point_cloud cs w (path_join path ''points3d.ply'')
            360000 (toydesk_place cam_infos) = (r, w1)"
          by (cases "random_point_cloud cs w (path_join path ''points3d.ply'')
            360000 (toydesk_place cam_infos)")
        show ?thesis
        proof (cases r)
          case (Inl e)
          with assms cams nn ne pc show ?thesis
            by (simp add: readToyDeskSceneInfo_def Let_def)
        next
          case pcd: (Inr pcd)
          show ?thesis
          proof (cases "split_cameras w1 path eval yml cam_infos")
            case (Inl e)
            with assms cams nn ne pc pcd show ?thesis
              by (simp add: readToyDeskSceneInfo_def Let_def)
          next
            case sp: (Inr tt)
            obtain tr te where tt: "tt = (tr, te)" by (cases tt)
            from assms cams nn ne pc pcd sp tt
            have "scene = \<lparr>point_cloud = pcd, train_cameras = tr, test_cameras = te,
                nerf_normalization = n, ply_path = path_join path ''points3d.ply''\<rparr>"
              and "w' = w1"
              by (simp_all add: readToyDeskSceneInfo_def Let_def)
            with nn pc pcd sp tt show ?thesis by auto
          qed
        qed
      qed
    qed
  qed
qed

lemma readToyDeskSceneInfo_world:
  assumes "os_path_exists w (path_join path ''points3d.ply'')"
  shows "snd (readToyDeskSceneInfo cs w path images wb eval ext yml) = w"
proof -
  let ?call = "readCamerasFromTransforms w
             [PStr path, PStr (path_join path (case images of None \<Rightarrow> ''images'' | Some d \<Rightarrow> d)),
              PStr ''transforms_full.json'', PBool wb]
             [(''depth_cam_folder'',
                 if os_path_exists w (path_join path ''depths'')
                 then PStr (path_join path ''depths'') else PNone),
              (''depth_est_folder'',
                 if os_path_exists w (path_join path ''depths_est'')
                 then PStr (path_join path ''depths_est'') else PNone),
              (''extension'', PStr ext)]"
  show ?thesis
  proof (cases ?call)
    case (Inl e)
    then show ?thesis by (simp add: readToyDeskSceneInfo_def Let_def)
  next
    case cams: (Inr cam_infos)
    show ?thesis
    proof (cases "getNerfppNorm cam_infos")
      case (Inl e)
      with cams show ?thesis by (simp add: readToyDeskSceneInfo_def Let_def)
    next
      case nn: (Inr n)
      note pc = random_point_cloud_cached[OF assms, of cs 360000 "toydesk_place cam_infos"]
      show ?thesis
      proof (cases "cam_infos = []")
        case True
        with cams nn show ?thesis by (simp add: readToyDeskSceneInfo_def Let_def)
      next
        case ne: False
        show ?thesis
        proof (cases "fetchPly w (path_join path ''points3d.ply'')")
          case (Inl e)
          with cams nn ne pc show ?thesis by (simp add: readToyDeskSceneInfo_def Let_def)
        next
          case pcd: (Inr pcd)
          with cams nn ne pc show ?thesis
            by (cases "split_cameras w path eval yml cam_infos")
               (auto simp add: readToyDeskSceneInfo_def Let_def)
        qed
      qed
    qed
  qed
qed


subsection \<open>The example loads\<close>


lemma getNerfppNorm_eval:
  assumes "map_exn cam_center cam_info = Inr (map column ps)"
    and "ps \<noteq> []" and "list_all (\<lambda>p. length p = 3) ps"
  shows "getNerfppNorm cam_info =
     Inr \<lparr>translate = map uminus (spec_centroid ps),
          radius = Max (spec_distance (spec_centroid ps) ` set ps) * 1.1\<rparr>"
  by (simp add: getNerfppNorm_def assms(1) get_center_and_diag_spec[OF assms(2,3)])

lemma example_frame_centers:
  "cam_center example_frame_a = Inr [[- 1], [0], [0]]"
  "cam_center example_frame_b = Inr [[1], [0], [0]]"
  by (simp_all add: cam_center_orthonormal example_frame_a_def example_frame_b_def shape_ok_def
      matmul_def eye_def dot_def transpose.simps upt_rec column_def)

lemma example_norms:
  "getNerfppNorm [example_cam_a, example_cam_b]
     = Inr \<lparr>translate = [0, 0, 0], radius = 11 / 10\<rparr>"
  "getNerfppNorm [example_frame_a, example_frame_b]
     = Inr \<lparr>translate = [0, 0, 0], radius = 11 / 10\<rparr>"
  "getNerfppNorm [example_frame_a] = Inr \<lparr>translate = [1, 0, 0], radius = 0\<rparr>"
proof -
  have "map_exn cam_center [example_cam_a, example_cam_b]
      = Inr (map column [[- 1, 0, 0], [1, 0, 0]])"
    by (simp add: example_centers column_def)
  from getNerfppNorm_eval[OF this]
  show "getNerfppNorm [example_cam_a, example_cam_b]
     = Inr \<lparr>translate = [0, 0, 0], radius = 11 / 10\<rparr>"
    by (simp add: spec_centroid_def spec_distance_def)
  have "map_exn cam_center [example_frame_a, example_frame_b]
      = Inr (map column [[- 1, 0, 0], [1, 0, 0]])"
    by (simp add: example_frame_centers column_def)
  from getNerfppNorm_eval[OF this]
  show "getNerfppNorm [example_frame_a, example_frame_b]
     = Inr \<lparr>translate = [0, 0, 0], radius = 11 / 10\<rparr>"
    by (simp add: spec_centroid_def spec_distance_def)
  have "map_exn cam_center [example_frame_a] = Inr (map column [[- 1, 0, 0]])"
    by (simp add: example_frame_centers column_def)
  from getNerfppNorm_eval[OF this]
  show "getNerfppNorm [example_frame_a] = Inr \<lparr>translate = [1, 0, 0], radius = 0\<rparr>"
    by (simp add: spec_centroid_def spec_distance_def)
qed

lemma example_fetch_points3d:
  "fetchPly example_world ''/scene/points3d.ply''
     = Inr \<lparr>points = [[1, 2, 3]], colors = [[1, 0, 1 / 5]], normals = None\<rparr>"
  by (simp add: fetchPly_def example_world_def example_fs_def example_vertex_def)

lemma example_colmap_load:
  "readColmapSceneInfo example_collaborators example_world ''/scene'' None False None
     = (Inr \<lparr>point_cloud = \<lparr>points = [[1, 2, 3]], colors = [[1, 0, 1 / 5]], normals = None\<rparr>,
             train_cameras = [example_cam_a, example_cam_b], test_cameras = [],
             nerf_normalization = \<lparr>translate = [0, 0, 0], radius = 11 / 10\<rparr>,
             ply_path = ''/scene/sparse/points3D.ply''\<rparr>, example_world)"
proof -
  have p: "path_join ''/scene'' ''images'' = ''/scene/images''"
    "path_join ''/scene'' ''depths_cam'' = ''/scene/depths_cam''"
    "path_join ''/scene'' ''depths_est'' = ''/scene/depths_est''"
    "path_join ''/scene'' ''sparse/points3D.ply'' = ''/scene/sparse/points3D.ply''"
    by (simp_all add: path_join_def)
  have pc: "colmap_point_cloud example_collaborators example_world ''/scene''
      = (Inr \<lparr>points = [[1, 2, 3]], colors = [[1, 0, 1 / 5]], normals = None\<rparr>, example_world)"
    by (simp add: colmap_point_cloud_cached p example_exists example_fetch)
  show ?thesis
    unfolding readColmapSceneInfo_def example_store
    by (simp add: p example_exists example_cameras example_sorted split_cameras_no_eval
        example_norms pc Let_def del: sort_key_simps)
qed

lemma example_toydesk_load:
  "readToyDeskSceneInfo example_collaborators example_world ''/scene'' None False True ''.png''
       (Some ''split.yml'')
     = (Inr \<lparr>point_cloud = \<lparr>points = [[1, 2, 3]], colors = [[1, 0, 1 / 5]], normals = None\<rparr>,
             train_cameras = [example_frame_a], test_cameras = [example_frame_b],
             nerf_normalization = \<lparr>translate = [0, 0, 0], radius = 11 / 10\<rparr>,
             ply_path = ''/scene/points3d.ply''\<rparr>, example_world)"
proof -
  have p: "path_join ''/scene'' ''images'' = ''/scene/images''"
    "path_join ''/scene'' ''depths'' = ''/scene/depths''"
    "path_join ''/scene'' ''depths_est'' = ''/scene/depths_est''"
    "path_join ''/scene'' ''points3d.ply'' = ''/scene/points3d.ply''"
    by (simp_all add: path_join_def)
  have pc: "random_point_cloud example_collaborators example_world ''/scene/points3d.ply'' n pl
      = (Inr \<lparr>points = [[1, 2, 3]], colors = [[1, 0, 1 / 5]], normals = None\<rparr>, example_world)"
    for n pl
    by (simp add: random_point_cloud_cached example_exists example_fetch_points3d)
  have sp: "split_cameras example_world ''/scene'' True (Some ''split.yml'')
       [example_frame_a, example_frame_b] = Inr ([example_frame_a], [example_frame_b])"
    unfolding split_cameras_eval[OF example_split]
    by (simp add: example_frame_a_def example_frame_b_def)
  show ?thesis
    unfolding readToyDeskSceneInfo_def
    by (simp add: p example_exists example_manifest example_norms pc sp)
qed


subsection \<open>Normalization and cache of an assembled scene\<close>


text \<open>
  Claim C1: for every scene load the normalization is computed from the train cameras
  only. \<^verbatim>\<open>readToyDeskSceneInfo\<close> normalizes all cameras of the manifest (line 365)
  before it applies the split (lines 390 to 400): with the cameras \<open>a\<close> and \<open>b\<close>
  and the split \<open>train: [a], test: [b]\<close> the scene carries the normalization of
  both cameras, not the one of its train camera \<open>a\<close>.
\<close>

theorem readToyDeskSceneInfo_normalization_failing_input:
  "readToyDeskSceneInfo example_collaborators example_world ''/scene'' None False True ''.png''
       (Some ''split.yml'') = (Inr example_toydesk_scene, example_world)
   \<and> train_cameras example_toydesk_scene = [example_frame_a]
   \<and> test_cameras example_toydesk_scene = [example_frame_b]
   \<and> nerf_normalization example_toydesk_scene = \<lparr>translate = [0, 0, 0], radius = 11 / 10\<rparr>
   \<and> getNerfppNorm (train_cameras example_toydesk_scene)
       = Inr \<lparr>translate = [1, 0, 0], radius = 0\<rparr>
   \<and> getNerfppNorm (train_cameras example_toydesk_scene @ test_cameras example_toydesk_scene)
       = Inr \<lparr>translate = [0, 0, 0], radius = 11 / 10\<rparr>"
  using example_toydesk_load example_norms
  by (simp add: example_toydesk_scene_def)

lemma readColmapSceneInfo_normalization:
  assumes "readColmapSceneInfo cs w path images eval yml = (Inr scene, w')"
  shows "getNerfppNorm (train_cameras scene) = Inr (nerf_normalization scene)"
  using readColmapSceneInfo_Inr[OF assms] by blast

text \<open>
  Claim C9: when the point-cloud file exists at the canonical path of a load, the load
  draws no random array and writes no file (the state after it is the state before
  it), the scene it returns carries exactly the points read from that file, and a
  second load returns the same scene.
\<close>

theorem point_cloud_cache:
  "(os_path_exists w (path_join path ''sparse/points3D.ply'') \<longrightarrow>
      colmap_point_cloud cs w path = (fetchPly w (path_join path ''sparse/points3D.ply''), w)
    \<and> snd (readColmapSceneInfo cs w path images eval yml) = w
    \<and> (\<forall>scene w'. readColmapSceneInfo cs w path images eval yml = (Inr scene, w') \<longrightarrow>
          fetchPly w (path_join path ''sparse/points3D.ply'') = Inr (point_cloud scene)
        \<and> readColmapSceneInfo cs w' path images eval yml = (Inr scene, w')))
   \<and> (os_path_exists w (path_join path ''points3d.ply'') \<longrightarrow>
      random_point_cloud cs w (path_join path ''points3d.ply'') n place
        = (fetchPly w (path_join path ''points3d.ply''), w)
    \<and> snd (readNerfSyntheticInfo cs w path wb eval ext) = w
    \<and> snd (readToyDeskSceneInfo cs w path images wb eval ext yml) = w
    \<and> (\<forall>scene w'. readToyDeskSceneInfo cs w path images wb eval ext yml = (Inr scene, w') \<longrightarrow>
          fetchPly w (path_join path ''points3d.ply'') = Inr (point_cloud scene)
        \<and> readToyDeskSceneInfo cs w' path images wb eval ext yml = (Inr scene, w')))"
proof (intro conjI impI allI)
  assume ex: "os_path_exists w (path_join path ''sparse/points3D.ply'')"
  note pc = colmap_point_cloud_cached[OF ex, of cs]
  show "colmap_point_cloud cs w path = (fetchPly w (path_join path ''sparse/points3D.ply''), w)"
    by (rule pc)
  show sw: "snd (readColmapSceneInfo cs w path images eval yml) = w"
    using readColmapSceneInfo_world[of cs w path images eval yml] pc by auto
  fix scene w'
  assume l: "readColmapSceneInfo cs w path images eval yml = (Inr scene, w')"
  from readColmapSceneInfo_Inr[OF l] pc
  show "fetchPly w (path_join path ''sparse/points3D.ply'') = Inr (point_cloud scene)"
    by auto
  from sw l show "readColmapSceneInfo cs w' path images eval yml = (Inr scene, w')" by simp
next
  assume ex: "os_path_exists w (path_join path ''points3d.ply'')"
  note pc = random_point_cloud_cached[OF ex, of cs]
  show "random_point_cloud cs w (path_join path ''points3d.ply'') n place
        = (fetchPly w (path_join path ''points3d.ply''), w)"
    by (rule pc)
  show "snd (readNerfSyntheticInfo cs w path wb eval ext) = w"
    by (simp add: readNerfSyntheticInfo_raises)
  show sw: "snd (readToyDeskSceneInfo cs w path images wb eval ext yml) = w"
    by (rule readToyDeskSceneInfo_world[OF ex])
  fix scene w'
  assume l: "readToyDeskSceneInfo cs w path images wb eval ext yml = (Inr scene, w')"
  from readToyDeskSceneInfo_Inr[OF l] pc
  show "fetchPly w (path_join path ''points3d.ply'') = Inr (point_cloud scene)"
    by auto
  from sw l show "readToyDeskSceneInfo cs w' path images wb eval ext yml = (Inr scene, w')"
    by simp
qed

theorem point_cloud_cache_witness:
  "os_path_exists example_world (path_join ''/scene'' ''sparse/points3D.ply'')
   \<and> os_path_exists example_world (path_join ''/scene'' ''points3d.ply'')
   \<and> readColmapSceneInfo example_collaborators example_world ''/scene'' None False None
       = (Inr example_colmap_scene, example_world)
   \<and> fetchPly example_world (path_join ''/scene'' ''sparse/points3D.ply'')
       = Inr (point_cloud example_colmap_scene)
   \<and> readToyDeskSceneInfo example_collaborators example_world ''/scene'' None False True
         ''.png'' (Some ''split.yml'') = (Inr example_toydesk_scene, example_world)
   \<and> fetchPly example_world (path_join ''/scene'' ''points3d.ply'')
       = Inr (point_cloud example_toydesk_scene)"
proof -
  have e1: "os_path_exists example_world (path_join ''/scene'' ''sparse/points3D.ply'')"
    and e2: "os_path_exists example_world (path_join ''/scene'' ''points3d.ply'')"
    by (simp_all add: path_join_def example_exists)
  have l1: "readColmapSceneInfo example_collaborators example_world ''/scene'' None False None
       = (Inr example_colmap_scene, example_world)"
    using example_colmap_load by (simp add: example_colmap_scene_def)
  have l2: "readToyDeskSceneInfo example_collaborators example_world ''/scene'' None False True
         ''.png'' (Some ''split.yml'') = (Inr example_toydesk_scene, example_world)"
    using example_toydesk_load by (simp add: example_toydesk_scene_def)
  note t = point_cloud_cache[where w = example_world and path = "''/scene''"
      and cs = example_collaborators and images = None and wb = False and ext = "''.png''"]
  from t[where eval = False and yml = None] e1 l1
  have f1: "fetchPly example_world (path_join ''/scene'' ''sparse/points3D.ply'')
       = Inr (point_cloud example_colmap_scene)" by blast
  from t[where eval = True and yml = "Some ''split.yml''"] e2 l2
  have f2: "fetchPly example_world (path_join ''/scene'' ''points3d.ply'')
       = Inr (point_cloud example_toydesk_scene)" by blast
  from e1 e2 l1 l2 f1 f2 show ?thesis by blast
qed



subsection \<open>The pose stored in a record\<close>


lemma orthonormal_columns:
  fixes a b c d e f g h i :: real
  assumes "a*a + b*b + c*c = 1" "d*d + e*e + f*f = 1" "g*g + h*h + i*i = 1"
    "a*d + b*e + c*f = 0" "a*g + b*h + c*i = 0" "d*g + e*h + f*i = 0"
  shows "a*a + d*d + g*g = 1" "b*b + e*e + h*h = 1" "c*c + f*f + i*i = 1"
    "a*b + d*e + g*h = 0" "a*c + d*f + g*i = 0" "b*c + e*f + h*i = 0"
proof -
  define D where "D = a * (e * i - f * h) - b * (d * i - f * g) + c * (d * h - e * g)"
  note co = orth_cofactors[OF assms, folded D_def]
  from co(1) have nz: "D \<noteq> 0" by auto
  have "D * (a*a + d*d + g*g) = a * (D * a) + d * (D * d) + g * (D * g)"
    by (simp add: algebra_simps)
  also have "\<dots> = D" unfolding co(2,5,8)[symmetric] by (simp add: D_def algebra_simps)
  finally show "a*a + d*d + g*g = 1" using nz by simp
  have "D * (b*b + e*e + h*h) = b * (D * b) + e * (D * e) + h * (D * h)"
    by (simp add: algebra_simps)
  also have "\<dots> = D" unfolding co(3,6,9)[symmetric] by (simp add: D_def algebra_simps)
  finally show "b*b + e*e + h*h = 1" using nz by simp
  have "D * (c*c + f*f + i*i) = c * (D * c) + f * (D * f) + i * (D * i)"
    by (simp add: algebra_simps)
  also have "\<dots> = D" unfolding co(4,7,10)[symmetric] by (simp add: D_def algebra_simps)
  finally show "c*c + f*f + i*i = 1" using nz by simp
  have "D * (a*b + d*e + g*h) = b * (D * a) + e * (D * d) + h * (D * g)"
    by (simp add: algebra_simps)
  also have "\<dots> = 0" unfolding co(2,5,8)[symmetric] by (simp add: algebra_simps)
  finally show "a*b + d*e + g*h = 0" using nz by simp
  have "D * (a*c + d*f + g*i) = c * (D * a) + f * (D * d) + i * (D * g)"
    by (simp add: algebra_simps)
  also have "\<dots> = 0" unfolding co(2,5,8)[symmetric] by (simp add: algebra_simps)
  finally show "a*c + d*f + g*i = 0" using nz by simp
  have "D * (b*c + e*f + h*i) = c * (D * b) + f * (D * e) + i * (D * h)"
    by (simp add: algebra_simps)
  also have "\<dots> = 0" unfolding co(3,6,9)[symmetric] by (simp add: algebra_simps)
  finally show "b*c + e*f + h*i = 0" using nz by simp
qed



lemma colmap_entry_pose_case:
  "case colmap_entry cs w ci folder dc de extr of
     Inl e \<Rightarrow> True
   | Inr c \<Rightarrow> R c = transpose (qvec2rotmat cs (qvec extr)) \<and> T c = tvec extr"
  by (simp add: colmap_entry_def Let_def split: option.split sum.split prod.split)

lemma colmap_entry_pose:
  assumes "colmap_entry cs w ci folder dc de extr = Inr c"
  shows "R c = transpose (qvec2rotmat cs (qvec extr)) \<and> T c = tvec extr"
  using colmap_entry_pose_case[where cs = cs and w = w and ci = ci and folder = folder
      and dc = dc and de = de and extr = extr] assms by simp

lemma transforms_frame_pose_case:
  "case transforms_frame w path images_dir dcf def isOpenGL extension fovx (idx, fr) of
     Inl e \<Rightarrow> True
   | Inr c \<Rightarrow> (\<exists>w2c. transforms_w2c isOpenGL (transform_matrix fr) = Inr w2c
                  \<and> R c = transpose (block33 w2c) \<and> col3 w2c = Inr (T c))"
  by (simp add: transforms_frame_def split: sum.split prod.split)

lemma transforms_frame_pose:
  assumes "transforms_frame w path images_dir dcf def isOpenGL extension fovx (idx, fr) = Inr c"
  shows "\<exists>w2c. transforms_w2c isOpenGL (transform_matrix fr) = Inr w2c
           \<and> R c = transpose (block33 w2c) \<and> col3 w2c = Inr (T c)"
  using transforms_frame_pose_case[where w = w and path = path and images_dir = images_dir
      and dcf = dcf and def = "def" and isOpenGL = isOpenGL and extension = extension
      and fovx = fovx and idx = idx and fr = fr] assms by simp


lemma readColmapCameras_pose:
  assumes "readColmapCameras cs w cam_extrinsics ci folder dc de = Inr cams"
  shows "list_all2 (\<lambda>entry c. R c = transpose (qvec2rotmat cs (qvec (snd entry)))
                             \<and> T c = tvec (snd entry)) cam_extrinsics cams"
proof -
  from map_exn_Inr[OF assms[unfolded readColmapCameras_def]]
  have "list_all2 (\<lambda>x y. colmap_entry cs w ci folder dc de x = Inr y)
          (map snd cam_extrinsics) cams" .
  then have "list_all2 (\<lambda>entry y. colmap_entry cs w ci folder dc de (snd entry) = Inr y)
          cam_extrinsics cams"
    by (simp add: list_all2_map1)
  then show ?thesis
    by (rule list_all2_mono) (rule colmap_entry_pose)
qed

lemma readCamerasFromTransforms_body_pose:
  assumes "readCamerasFromTransforms_body w a = Inr cams"
    and "a ''path'' = PStr path" and "a ''transformsfile'' = PStr tf"
    and "fs w (path_join path tf) = Some (Manifest fovx frames)"
  shows "list_all2 (\<lambda>fr c. \<exists>w2c. transforms_w2c (a ''isOpenGL'') (transform_matrix fr) = Inr w2c
                             \<and> R c = transpose (block33 w2c) \<and> col3 w2c = Inr (T c))
           frames cams"
proof -
  from assms have "map_exn (transforms_frame w path (a ''images_dir'') (a ''depth_cam_folder'')
                     (a ''depth_est_folder'') (a ''isOpenGL'') (a ''extension'') fovx)
            (zip [0..<length frames] frames) = Inr cams"
    by (simp add: readCamerasFromTransforms_body_def as_str_def)
  from map_exn_Inr[OF this]
  have "list_all2 (\<lambda>x y. transforms_frame w path (a ''images_dir'') (a ''depth_cam_folder'')
                     (a ''depth_est_folder'') (a ''isOpenGL'') (a ''extension'') fovx x = Inr y)
          (zip [0..<length frames] frames) cams" .
  then have "list_all2 (\<lambda>x c. \<exists>w2c. transforms_w2c (a ''isOpenGL'') (transform_matrix (snd x)) = Inr w2c
                             \<and> R c = transpose (block33 w2c) \<and> col3 w2c = Inr (T c))
          (zip [0..<length frames] frames) cams"
    by (rule list_all2_mono) (metis transforms_frame_pose prod.collapse)
  then have "list_all2 (\<lambda>fr c. \<exists>w2c. transforms_w2c (a ''isOpenGL'') (transform_matrix fr) = Inr w2c
                             \<and> R c = transpose (block33 w2c) \<and> col3 w2c = Inr (T c))
          (map snd (zip [0..<length frames] frames)) cams"
    unfolding list_all2_map1 .
  moreover have "map snd (zip [0..<length frames] frames) = frames"
    by (simp add: map_snd_zip)
  ultimately show ?thesis by simp
qed

lemma stored_rotation_orthonormal:
  assumes "shape_ok 3 3 Rraw" and "matmul Rraw (transpose Rraw) = eye 3"
  shows "matmul (transpose Rraw) (transpose (transpose Rraw)) = eye 3"
proof -
  from shape33[OF assms(1)] obtain a b c d e f g h i
    where Rm: "Rraw = [[a, b, c], [d, e, f], [g, h, i]]" by blast
  note cols = orthonormal_columns[OF orth_eqs[OF assms(2)[unfolded Rm]]]
  show ?thesis
    unfolding Rm using cols
    by (simp add: matmul_def eye_def dot_def transpose.simps upt_rec mult.commute)
qed



lemma example_manifest_body:
  "readCamerasFromTransforms_body example_world example_args
     = Inr [example_frame_a, example_frame_b]"
proof -
  have fsm: "fs example_world ''/scene/transforms_full.json'' =
     Some (Manifest 0.6911
           [\<lparr>file_path = ''./images/a'',
              transform_matrix = [[1, 0, 0, 1], [0, 1, 0, 0], [0, 0, 1, 0], [0, 0, 0, 1]]\<rparr>,
            \<lparr>file_path = ''./images/b'',
              transform_matrix = [[1, 0, 0, - 1], [0, 1, 0, 0], [0, 0, 1, 0], [0, 0, 0, 1]]\<rparr>])"
    by (simp add: example_world_def example_fs_def)
  have z: "zip [0..<2] [x, y] = [(0, x), (1, y)]" for x y :: frame
    by (simp add: upt_rec)
  show ?thesis
    using example_frame_a_eval example_frame_b_eval
    by (simp add: readCamerasFromTransforms_body_def as_str_def example_args_def
        path_join_def fsm z)
qed

text \<open>
  Claim C3: for every raw pose accepted by either adapter the record stores the
  transpose of the raw world-to-camera rotation and the raw translation unchanged (for
  the reconstruction adapter the rotation of the quaternion and \<open>tvec\<close>; for the
  manifest adapter the rotation block and the translation column of the inverted,
  possibly axis-flipped, camera-to-world matrix); and when the raw rotation is
  orthonormal, the stored rotation times its transpose is the identity.
\<close>

theorem stored_pose:
  "(readColmapCameras cs w cam_extrinsics ci folder dc de = Inr cams \<longrightarrow>
      list_all2 (\<lambda>entry c. R c = transpose (qvec2rotmat cs (qvec (snd entry)))
                            \<and> T c = tvec (snd entry)) cam_extrinsics cams)
   \<and> (readCamerasFromTransforms_body w a = Inr cams' \<and> a ''path'' = PStr path
       \<and> a ''transformsfile'' = PStr tf
       \<and> fs w (path_join path tf) = Some (Manifest fovx frames) \<longrightarrow>
      list_all2 (\<lambda>fr c. \<exists>w2c. transforms_w2c (a ''isOpenGL'') (transform_matrix fr) = Inr w2c
                            \<and> R c = transpose (block33 w2c) \<and> col3 w2c = Inr (T c))
        frames cams')
   \<and> (shape_ok 3 3 Rraw \<and> matmul Rraw (transpose Rraw) = eye 3 \<longrightarrow>
      matmul (transpose Rraw) (transpose (transpose Rraw)) = eye 3)"
  using readColmapCameras_pose[of cs w cam_extrinsics ci folder dc de cams]
    readCamerasFromTransforms_body_pose[of w a cams' path tf fovx frames]
    stored_rotation_orthonormal[of Rraw]
  by blast

theorem stored_pose_witness:
  "readColmapCameras example_collaborators example_world example_images [1 \<mapsto> example_camera]
       ''/scene/images'' None None = Inr [example_cam_b, example_cam_a]
   \<and> list_all2 (\<lambda>entry c. R c = transpose (example_qvec2rotmat (qvec (snd entry)))
                         \<and> T c = tvec (snd entry))
        example_images [example_cam_b, example_cam_a]
   \<and> readCamerasFromTransforms_body example_world example_args
       = Inr [example_frame_a, example_frame_b]
   \<and> example_args ''path'' = PStr ''/scene''
   \<and> example_args ''transformsfile'' = PStr ''transforms_full.json''
   \<and> fs example_world (path_join ''/scene'' ''transforms_full.json'')
       = Some (Manifest 0.6911
           [\<lparr>file_path = ''./images/a'',
              transform_matrix = [[1, 0, 0, 1], [0, 1, 0, 0], [0, 0, 1, 0], [0, 0, 0, 1]]\<rparr>,
            \<lparr>file_path = ''./images/b'',
              transform_matrix = [[1, 0, 0, - 1], [0, 1, 0, 0], [0, 0, 1, 0], [0, 0, 0, 1]]\<rparr>])
   \<and> list_all2 (\<lambda>fr c. \<exists>w2c. transforms_w2c (example_args ''isOpenGL'') (transform_matrix fr)
                                = Inr w2c
                         \<and> R c = transpose (block33 w2c) \<and> col3 w2c = Inr (T c))
        [\<lparr>file_path = ''./images/a'',
              transform_matrix = [[1, 0, 0, 1], [0, 1, 0, 0], [0, 0, 1, 0], [0, 0, 0, 1]]\<rparr>,
            \<lparr>file_path = ''./images/b'',
              transform_matrix = [[1, 0, 0, - 1], [0, 1, 0, 0], [0, 0, 1, 0], [0, 0, 0, 1]]\<rparr>]
        [example_frame_a, example_frame_b]
   \<and> shape_ok 3 3 [[0, - 1, 0], [1, 0, 0], [0, 0, 1]]
   \<and> matmul [[0, - 1, 0], [1, 0, 0], [0, 0, 1]] (transpose [[0, - 1, 0], [1, 0, 0], [0, 0, 1]])
       = eye 3
   \<and> matmul (transpose [[0, - 1, 0], [1, 0, 0], [0, 0, 1]])
        (transpose (transpose [[0, - 1, 0], [1, 0, 0], [0, 0, 1]])) = eye 3"
proof -
  let ?frames = "[\<lparr>file_path = ''./images/a'',
              transform_matrix = [[1, 0, 0, 1], [0, 1, 0, 0], [0, 0, 1, 0], [0, 0, 0, 1]]\<rparr>,
            \<lparr>file_path = ''./images/b'',
              transform_matrix = [[1, 0, 0, - 1], [0, 1, 0, 0], [0, 0, 1, 0], [0, 0, 0, 1]]\<rparr>]"
  let ?Q = "[[0, - 1, 0], [1, 0, 0], [0, 0, 1 :: real]]"
  have c: "readColmapCameras example_collaborators example_world example_images
       [1 \<mapsto> example_camera] ''/scene/images'' None None = Inr [example_cam_b, example_cam_a]"
    by (rule example_cameras)
  have q: "qvec2rotmat example_collaborators = example_qvec2rotmat"
    by (simp add: example_collaborators_def)
  have p: "example_args ''path'' = PStr ''/scene''"
    "example_args ''transformsfile'' = PStr ''transforms_full.json''"
    by (simp_all add: example_args_def)
  have f: "fs example_world (path_join ''/scene'' ''transforms_full.json'')
       = Some (Manifest 0.6911 ?frames)"
    by (simp add: example_world_def example_fs_def path_join_def)
  have s: "shape_ok 3 3 ?Q" by (simp add: shape_ok_def)
  have o: "matmul ?Q (transpose ?Q) = eye 3"
    by (simp add: matmul_def eye_def dot_def transpose.simps upt_rec)
  note t = stored_pose[where cs = example_collaborators and w = example_world
      and cam_extrinsics = example_images and ci = "[1 \<mapsto> example_camera]"
      and folder = "''/scene/images''" and dc = None and de = None
      and cams = "[example_cam_b, example_cam_a]" and a = example_args
      and cams' = "[example_frame_a, example_frame_b]" and path = "''/scene''"
      and tf = "''transforms_full.json''" and fovx = "0.6911" and frames = ?frames
      and Rraw = ?Q, unfolded q]
  from t c example_manifest_body p f s o show ?thesis by blast
qed


subsection \<open>The probe for the image of an entry\<close>





















end
